theory Spec2Isabelle
  imports Main "HOL-Library.Sublist"
begin

section \<open>The chat store: data model\<close>

text \<open>
  The store of the chat client (\<^verbatim>\<open>useChatStore\<close>) is embedded as a record; each action
  of the store is a function from the state to the state. Strings are byte lists; a
  non-ASCII character of a source literal is written as its UTF-8 bytes.

  The types \<^verbatim>\<open>Message\<close>, \<^verbatim>\<open>Chat\<close>, \<^verbatim>\<open>Agent\<close> and \<^verbatim>\<open>JobResponse\<close> are declared
  in the API module, which is not among the sources: each record holds the fields the
  store reads and writes, with the types the store uses them at. The fields \<^verbatim>\<open>id\<close>,
  \<^verbatim>\<open>model\<close> and \<^verbatim>\<open>name\<close> carry a suffix.
\<close>

datatype role = User | Assistant

record message =
  role :: role
  content :: string
  timestamp :: string

record chat =
  id_c :: string
  title :: string
  provider :: string
  model_c :: string
  agent_id :: "string option"
  messages :: "message list"

record agent =
  id_a :: string
  name_a :: "string option"

datatype chat_mode = NormalMode | AgentMode

text \<open>
  \<^verbatim>\<open>JobResponse\<close>, which is also the reply of \<^verbatim>\<open>api.getJobStatus\<close>. A status is
  the string the store compares it with.
\<close>

record job_response =
  job_id :: "string option"
  chat_id :: "string option"
  status :: string
  result_message :: "string option"
  output_docx_url :: "string option"
  error :: "string option"

text \<open>
  A cleanup closure kept in \<^verbatim>\<open>streamingCleanup\<close>, by the channel it releases: the
  function returned by \<^verbatim>\<open>api.streamJobEvents\<close>, the closure of
  \<^verbatim>\<open>startJobPolling\<close> over its \<^verbatim>\<open>pollTimeout\<close>, and the closure of the
  simulated streaming of normal mode over its interval. The number is the handle of
  the channel in the event loop.
\<close>

datatype cleanup = CloseEventSource nat | ClearPollTimeout nat | ClearStreamInterval nat

record chat_state =
  chats :: "chat list"
  currentChatId :: "string option"
  agents :: "agent list"
  selectedProvider :: string
  selectedModel :: string
  selectedAgentId :: "string option"
  chatMode :: chat_mode
  loadingChatId :: "string option"
  isLoading :: bool
  isStreaming :: bool
  currentJob :: "job_response option"
  streamingCleanup :: "cleanup option"

text \<open>
  What the store imports: \<^verbatim>\<open>generateChatTitle\<close> of the utilities,
  \<^verbatim>\<open>API_BASE_URL\<close> of the API module and the built-in \<^verbatim>\<open>JSON.parse\<close> are
  parameters of the model. A parsed frame is \<^verbatim>\<open>NotJSON\<close> when parsing or reading
  the frame throws, and holds \<^verbatim>\<open>parsed.result && parsed.result.text\<close> and
  \<^verbatim>\<open>parsed.message\<close> otherwise.
\<close>

datatype parsed_frame = NotJSON | ParsedJSON "string option" "string option"

record env =
  generateChatTitle :: "string \<Rightarrow> string"
  API_BASE_URL :: string
  JSON_parse :: "string \<Rightarrow> parsed_frame"

section \<open>JavaScript values\<close>

text \<open>Truthiness of an optional string: \<^verbatim>\<open>undefined\<close>, \<^verbatim>\<open>null\<close> and \<^verbatim>\<open>''\<close> are falsy.\<close>

definition truthy :: "string option \<Rightarrow> bool" where
  "truthy v = (case v of None \<Rightarrow> False | Some x \<Rightarrow> x \<noteq> [])"

text \<open>\<^verbatim>\<open>a || d\<close> for an optional string \<^verbatim>\<open>a\<close> and a string \<^verbatim>\<open>d\<close>.\<close>

definition or_else :: "string option \<Rightarrow> string \<Rightarrow> string" where
  "or_else v d = (case v of None \<Rightarrow> d | Some x \<Rightarrow> (if x = [] then d else x))"

text \<open>\<^verbatim>\<open>chats.find(c => c.id === chatId)\<close>\<close>

definition find_chat :: "string \<Rightarrow> chat list \<Rightarrow> chat option" where
  "find_chat chatId cs = find (\<lambda>c. id_c c = chatId) cs"

text \<open>\<^verbatim>\<open>chat?.messages[chat.messages.length - 1]\<close>: undefined without a chat or a message.\<close>

definition lastMsg :: "chat option \<Rightarrow> message option" where
  "lastMsg c = (case c of None \<Rightarrow> None
     | Some ch \<Rightarrow> (if messages ch = [] then None else Some (last (messages ch))))"

text \<open>\<^verbatim>\<open>lastMsg?.role === 'assistant'\<close>\<close>

definition lastIsAssistant :: "string \<Rightarrow> chat list \<Rightarrow> bool" where
  "lastIsAssistant chatId cs =
     (case lastMsg (find_chat chatId cs) of None \<Rightarrow> False | Some m \<Rightarrow> role m = Assistant)"

section \<open>Transcript mutation\<close>

definition addMessage :: "env \<Rightarrow> string \<Rightarrow> message \<Rightarrow> chat_state \<Rightarrow> chat_state" where
  "addMessage e chatId m s =
     s\<lparr>chats := map (\<lambda>c.
        if id_c c = chatId
        then c\<lparr>messages := messages c @ [m],
               title := (if length (messages c) = 0 \<and> role m = User
                         then generateChatTitle e (content m) else title c)\<rparr>
        else c) (chats s)\<rparr>"

definition updateLastMessage :: "string \<Rightarrow> string \<Rightarrow> chat_state \<Rightarrow> chat_state" where
  "updateLastMessage chatId c s =
     s\<lparr>chats := map (\<lambda>ch.
        if id_c ch = chatId \<and> length (messages ch) > 0
        then ch\<lparr>messages := (messages ch)[length (messages ch) - 1 :=
                 (messages ch ! (length (messages ch) - 1))\<lparr>content := c\<rparr>]\<rparr>
        else ch) (chats s)\<rparr>"

section \<open>Strings of the store\<close>

text \<open>
  The white space and line terminators that \<^verbatim>\<open>String.prototype.trim\<close> removes, as
  UTF-8 byte sequences: U+0009 to U+000D, U+0020, U+00A0, U+1680, U+2000 to U+200A,
  U+2028, U+2029, U+202F, U+205F, U+3000 and U+FEFF.
\<close>

definition js_whitespace :: "string list" where
  "js_whitespace =
     [[CHR 0x09], [CHR 0x0A], [CHR 0x0B], [CHR 0x0C], [CHR 0x0D], [CHR 0x20],
      [CHR 0xC2, CHR 0xA0], [CHR 0xE1, CHR 0x9A, CHR 0x80],
      [CHR 0xE2, CHR 0x80, CHR 0x80], [CHR 0xE2, CHR 0x80, CHR 0x81],
      [CHR 0xE2, CHR 0x80, CHR 0x82], [CHR 0xE2, CHR 0x80, CHR 0x83],
      [CHR 0xE2, CHR 0x80, CHR 0x84], [CHR 0xE2, CHR 0x80, CHR 0x85],
      [CHR 0xE2, CHR 0x80, CHR 0x86], [CHR 0xE2, CHR 0x80, CHR 0x87],
      [CHR 0xE2, CHR 0x80, CHR 0x88], [CHR 0xE2, CHR 0x80, CHR 0x89],
      [CHR 0xE2, CHR 0x80, CHR 0x8A], [CHR 0xE2, CHR 0x80, CHR 0xA8],
      [CHR 0xE2, CHR 0x80, CHR 0xA9], [CHR 0xE2, CHR 0x80, CHR 0xAF],
      [CHR 0xE2, CHR 0x81, CHR 0x9F], [CHR 0xE3, CHR 0x80, CHR 0x80],
      [CHR 0xEF, CHR 0xBB, CHR 0xBF]]"

definition strip_ws :: "string \<Rightarrow> string option" where
  "strip_ws s = map_option (\<lambda>w. drop (length w) s) (find (\<lambda>w. prefix w s) js_whitespace)"

text \<open>\<^verbatim>\<open>!s.trim()\<close>: the string is empty once trimmed.\<close>

function js_blank :: "string \<Rightarrow> bool" where
  "js_blank [] = True"
| "js_blank (c # cs) = (case strip_ws (c # cs) of None \<Rightarrow> False | Some r \<Rightarrow> js_blank r)"
  by pat_completeness auto
termination
proof (relation "measure length", goal_cases)
  case 1
  show ?case
    by simp
next
  case (2 c cs r)
  then obtain w where w: "find (\<lambda>w. prefix w (c # cs)) js_whitespace = Some w"
    and r: "r = drop (length w) (c # cs)"
    by (auto simp: strip_ws_def)
  from w have "w \<in> set js_whitespace"
    by (auto simp: find_Some_iff)
  then have "w \<noteq> []"
    by (auto simp: js_whitespace_def)
  with r show ?case
    by (cases w) auto
qed

definition newline :: string where
  "newline = [CHR 0x0A]"

text \<open>The prefix of every error message: U+274C and \<^verbatim>\<open> Error: \<close>.\<close>

definition error_prefix :: string where
  "error_prefix = [CHR 0xE2, CHR 0x9D, CHR 0x8C] @ '' Error: ''"

text \<open>
  The download affordance appended to a final message: two newlines, U+1F4C4 and the
  Markdown link to the document.
\<close>

definition download_link :: "string \<Rightarrow> string \<Rightarrow> string" where
  "download_link agentName docxUrl =
     newline @ newline @ [CHR 0xF0, CHR 0x9F, CHR 0x93, CHR 0x84] @
     '' [Download Technical Specification Document ('' @ agentName @ '')]('' @ docxUrl @ '')''"

text \<open>\<^verbatim>\<open>url.startsWith('http') ? url : `${API_BASE_URL}${url}`\<close>\<close>

definition absolute_url :: "env \<Rightarrow> string \<Rightarrow> string" where
  "absolute_url e url = (if prefix ''http'' url then url else API_BASE_URL e @ url)"

text \<open>
  The display name of an agent, computed alike by \<^verbatim>\<open>sendMessage\<close>,
  \<^verbatim>\<open>restartJobStreaming\<close> and \<^verbatim>\<open>startJobPolling\<close>.
\<close>

definition agent_name :: "string option \<Rightarrow> agent list \<Rightarrow> string" where
  "agent_name agentId ags =
     (if truthy agentId
      then (case find (\<lambda>a. id_a a = the agentId) ags of
              None \<Rightarrow> the agentId
            | Some a \<Rightarrow> (if truthy (name_a a) then the (name_a a) else the agentId))
      else ''agent'')"

section \<open>Terminal frames of the event stream\<close>

text \<open>
  The argument of the completion callback of \<^verbatim>\<open>api.streamJobEvents\<close>:
  \<^verbatim>\<open>result.status\<close>, \<^verbatim>\<open>result.result\<close> (a string or an object) and
  \<^verbatim>\<open>result.error\<close>.
\<close>

record result_payload =
  result_message_p :: "string option"
  text_p :: "string option"
  message_p :: "string option"
  output_docx_path :: "string option"
  output_docx_url_p :: "string option"

datatype payload = PayloadText string | PayloadObject result_payload

record stream_result =
  status_r :: string
  result_r :: "payload option"
  error_r :: "string option"

definition payload_truthy :: "payload option \<Rightarrow> bool" where
  "payload_truthy p =
     (case p of None \<Rightarrow> False | Some (PayloadText t) \<Rightarrow> t \<noteq> [] | Some (PayloadObject r) \<Rightarrow> True)"

text \<open>
  \<^verbatim>\<open>result.result.result_message || result.result.text || result.result.message || result.result\<close>,
  and the link appended to it when a document was generated. A property read on a
  string is undefined; an object with none of the three fields is written as the
  string JavaScript turns it into.
\<close>

definition completed_text :: "env \<Rightarrow> string \<Rightarrow> string \<Rightarrow> payload \<Rightarrow> string" where
  "completed_text e jobId agentName p =
     (case p of
        PayloadText t \<Rightarrow> t
      | PayloadObject r \<Rightarrow>
          (let finalMessage =
                 or_else (result_message_p r) (or_else (text_p r) (or_else (message_p r) ''[object Object]''))
           in if truthy (output_docx_path r) \<or> truthy (output_docx_url_p r)
              then finalMessage @ download_link agentName
                     (if truthy (output_docx_url_p r)
                      then absolute_url e (the (output_docx_url_p r))
                      else API_BASE_URL e @ ''/jobs/'' @ jobId @ ''/docx'')
              else finalMessage))"

section \<open>Callbacks of the push channel\<close>

text \<open>\<^verbatim>\<open>set((state) => ({ currentJob: state.currentJob ? {...} : null }))\<close>\<close>

definition mark_job :: "(job_response \<Rightarrow> job_response) \<Rightarrow> chat_state \<Rightarrow> chat_state" where
  "mark_job f s = s\<lparr>currentJob := map_option f (currentJob s)\<rparr>"

text \<open>
  The step every callback of the stream repeats: replace the last message when it is
  an assistant message, append a new assistant message otherwise.
\<close>

definition replace_or_append :: "env \<Rightarrow> string \<Rightarrow> string \<Rightarrow> string \<Rightarrow> chat_state \<Rightarrow> chat_state" where
  "replace_or_append e chatId txt now s =
     (if lastIsAssistant chatId (chats s)
      then updateLastMessage chatId txt s
      else addMessage e chatId \<lparr>role = Assistant, content = txt, timestamp = now\<rparr> s)"

text \<open>
  The data callback of \<^verbatim>\<open>sendMessage\<close>. The closure variable \<^verbatim>\<open>fullResponse\<close>
  is passed in and returned with the store.
\<close>

definition sendMessage_onData ::
  "env \<Rightarrow> string \<Rightarrow> string \<Rightarrow> string \<Rightarrow> string \<times> chat_state \<Rightarrow> string \<times> chat_state" where
  "sendMessage_onData e chatId dat now fs =
     (let fullResponse = fst fs @ dat @ newline;
          s1 = (if \<not> js_blank fullResponse
                then replace_or_append e chatId fullResponse now (snd fs) else snd fs)
      in (fullResponse, mark_job (\<lambda>j. j\<lparr>status := ''running''\<rparr>) s1))"

text \<open>
  The completion callback, the same text in \<^verbatim>\<open>sendMessage\<close> and in
  \<^verbatim>\<open>restartJobStreaming\<close>. The boolean tells whether the timer that clears
  \<^verbatim>\<open>currentJob\<close> after three seconds was set.
\<close>

definition stream_onComplete ::
  "env \<Rightarrow> string \<Rightarrow> string \<Rightarrow> string \<Rightarrow> stream_result \<Rightarrow> string \<Rightarrow> chat_state \<Rightarrow> chat_state \<times> bool" where
  "stream_onComplete e chatId jobId agentName res now s =
     (let s0 = s\<lparr>streamingCleanup := None\<rparr>;
          r = (if status_r res = ''completed'' \<and> payload_truthy (result_r res)
               then (replace_or_append e chatId
                       (completed_text e jobId agentName (the (result_r res))) now
                       (mark_job (\<lambda>j. j\<lparr>status := ''completed''\<rparr>) s0), True)
               else if status_r res = ''failed''
               then (replace_or_append e chatId
                       (error_prefix @ or_else (error_r res) ''Job failed'') now
                       (mark_job (\<lambda>j. j\<lparr>status := ''failed'', error := error_r res\<rparr>) s0), True)
               else (s0, False))
      in ((fst r)\<lparr>loadingChatId := None, isLoading := False, isStreaming := False\<rparr>, snd r))"

section \<open>The pull channel\<close>

text \<open>The outcome of an awaited request: rejected with an error, or resolved.\<close>

datatype 'a reply = Rejected "string option" | Resolved 'a

definition maxAttempts :: nat where
  "maxAttempts = 86400"

definition clear_job :: "chat_state \<Rightarrow> chat_state" where
  "clear_job s = s\<lparr>loadingChatId := None, isLoading := False, isStreaming := False, currentJob := None\<rparr>"

definition poll_completed_text :: "env \<Rightarrow> string \<Rightarrow> job_response \<Rightarrow> string" where
  "poll_completed_text e agentName st =
     (let finalMessage = or_else (result_message st) ''Completed''
      in if truthy (output_docx_url st)
         then finalMessage @ download_link agentName (absolute_url e (the (output_docx_url st)))
         else finalMessage)"

definition assistant_message :: "string \<Rightarrow> string \<Rightarrow> message" where
  "assistant_message txt now = \<lparr>role = Assistant, content = txt, timestamp = now\<rparr>"

text \<open>
  One run of the closure \<^verbatim>\<open>poll\<close> of \<^verbatim>\<open>pollJobStatus\<close>, from the reply of the
  status request on. The closure variable \<^verbatim>\<open>attempts\<close> is passed in and returned;
  the boolean tells whether the next poll was scheduled.
\<close>

definition pollJobStatus_poll ::
  "env \<Rightarrow> string \<Rightarrow> string \<Rightarrow> job_response reply \<Rightarrow> string \<Rightarrow> nat \<times> chat_state
     \<Rightarrow> (nat \<times> chat_state) \<times> bool" where
  "pollJobStatus_poll e chatId agentName rep now as =
     (case rep of
        Rejected err \<Rightarrow> ((fst as, clear_job (snd as)), False)
      | Resolved st \<Rightarrow>
          if status st = ''completed''
          then ((fst as, clear_job (addMessage e chatId
                   (assistant_message (poll_completed_text e agentName st) now) (snd as))), False)
          else if status st = ''failed''
          then ((fst as, clear_job (addMessage e chatId
                   (assistant_message (error_prefix @ or_else (error st) ''Job failed'') now) (snd as))), False)
          else (let attempts = fst as + 1
                in if attempts < maxAttempts
                   then ((attempts, snd as), True)
                   else ((attempts, clear_job (addMessage e chatId
                           (assistant_message (error_prefix @ ''Request timed out'') now) (snd as))), False)))"

text \<open>
  The loop of \<^verbatim>\<open>pollJobStatus\<close>: \<^verbatim>\<open>poll\<close> runs again, one second later, as long
  as it scheduled itself. \<^verbatim>\<open>feed k\<close> is the reply to the request of poll \<^verbatim>\<open>k\<close> and
  \<^verbatim>\<open>clock k\<close> the time then. The result is the number of polls made and the last store.
\<close>

function pollJobStatus_run ::
  "env \<Rightarrow> string \<Rightarrow> string \<Rightarrow> (nat \<Rightarrow> job_response reply) \<Rightarrow> (nat \<Rightarrow> string) \<Rightarrow> nat
     \<Rightarrow> nat \<times> chat_state \<Rightarrow> nat \<times> chat_state" where
  "pollJobStatus_run e chatId agentName feed clock k as =
     (case pollJobStatus_poll e chatId agentName (feed k) (clock k) as of
        (as', scheduled) \<Rightarrow>
          if scheduled then pollJobStatus_run e chatId agentName feed clock (Suc k) as'
          else (Suc k, snd as'))"
  by pat_completeness auto
termination
proof (relation "measure (\<lambda>(e, chatId, agentName, feed, clock, k, as). maxAttempts - fst as)",
    goal_cases)
  case 1
  show ?case
    by simp
next
  case (2 e chatId agentName feed clock k as as' scheduled)
  then have "pollJobStatus_poll e chatId agentName (feed k) (clock k) as = (as', True)"
    by simp
  then have "Suc (fst as) < maxAttempts" and "fst as' = Suc (fst as)"
    by (auto simp: pollJobStatus_poll_def Let_def split: reply.splits if_splits)
  then show ?case
    by simp
qed

declare pollJobStatus_run.simps [simp del]

text \<open>
  \<^verbatim>\<open>chats.map(c => c.id === chatId ? { ...c, messages: [...c.messages, m] } : c)\<close>, the
  append that \<^verbatim>\<open>startJobPolling\<close> writes out itself.
\<close>

definition append_to_chat :: "string \<Rightarrow> message \<Rightarrow> chat list \<Rightarrow> chat list" where
  "append_to_chat chatId m cs =
     map (\<lambda>c. if id_c c = chatId then c\<lparr>messages := messages c @ [m]\<rparr> else c) cs"

definition poll_finished :: "chat list \<Rightarrow> chat_state \<Rightarrow> chat_state" where
  "poll_finished updatedChats s =
     s\<lparr>chats := updatedChats, loadingChatId := None, isLoading := False, isStreaming := False,
       currentJob := None, streamingCleanup := None\<rparr>"

text \<open>
  One run of the closure \<^verbatim>\<open>poll\<close> of \<^verbatim>\<open>startJobPolling\<close>, from the reply of the
  status request on; the boolean tells whether the next poll was scheduled.
\<close>

definition startJobPolling_poll ::
  "env \<Rightarrow> string \<Rightarrow> string \<Rightarrow> job_response reply \<Rightarrow> string \<Rightarrow> chat_state \<Rightarrow> chat_state \<times> bool" where
  "startJobPolling_poll e chatId jobId rep now s =
     (case rep of
        Rejected err \<Rightarrow>
          (s\<lparr>loadingChatId := None, isLoading := False, isStreaming := False,
             currentJob := None, streamingCleanup := None\<rparr>, False)
      | Resolved st \<Rightarrow>
          if status st = ''completed''
          then (case find_chat chatId (chats s) of
                  None \<Rightarrow> (s, False)
                | Some ch \<Rightarrow>
                    (poll_finished (append_to_chat chatId
                       (assistant_message
                          (poll_completed_text e (agent_name (agent_id ch) (agents s)) st) now)
                       (chats s)) s, False))
          else if status st = ''failed''
          then (poll_finished (append_to_chat chatId
                  (assistant_message (error_prefix @ or_else (error st) ''Job failed'') now)
                  (chats s)) s, False)
          else if status st = ''running'' \<or> status st = ''queued''
          then (s\<lparr>currentJob := Some (st\<lparr>job_id := Some jobId, chat_id := Some chatId\<rparr>)\<rparr>, True)
          else (s, False))"

text \<open>
  The loop of \<^verbatim>\<open>startJobPolling\<close>, with fuel: \<^verbatim>\<open>None\<close> when the fuel is used up
  and the next poll is still scheduled.
\<close>

fun startJobPolling_run ::
  "nat \<Rightarrow> env \<Rightarrow> string \<Rightarrow> string \<Rightarrow> (nat \<Rightarrow> job_response reply) \<Rightarrow> (nat \<Rightarrow> string) \<Rightarrow> nat
     \<Rightarrow> chat_state \<Rightarrow> (nat \<times> chat_state) option" where
  "startJobPolling_run 0 e chatId jobId feed clock k s = None"
| "startJobPolling_run (Suc fuel) e chatId jobId feed clock k s =
     (case startJobPolling_poll e chatId jobId (feed k) (clock k) s of
        (s', scheduled) \<Rightarrow>
          if scheduled then startJobPolling_run fuel e chatId jobId feed clock (Suc k) s'
          else Some (Suc k, s'))"

section \<open>Callbacks of the restarted stream\<close>

text \<open>The data callback of \<^verbatim>\<open>restartJobStreaming\<close>.\<close>

definition restartJobStreaming_onData :: "env \<Rightarrow> string \<Rightarrow> string \<Rightarrow> chat_state \<Rightarrow> chat_state" where
  "restartJobStreaming_onData e chatId dat s =
     (let s1 = (if lastIsAssistant chatId (chats s)
                then (case JSON_parse e dat of
                        NotJSON \<Rightarrow> updateLastMessage chatId dat s
                      | ParsedJSON rt msg \<Rightarrow>
                          if truthy rt then updateLastMessage chatId (the rt) s
                          else if truthy msg then updateLastMessage chatId (the msg) s
                          else s)
                else s)
      in mark_job (\<lambda>j. j\<lparr>status := ''running''\<rparr>) s1)"

section \<open>The event loop\<close>

text \<open>
  What lives outside the store: the open event streams, the poll and interval timers,
  each with the variables its closures captured. A channel is registered under a handle
  from the moment it is opened until it is released or stops by itself.

  \<^item> \<^verbatim>\<open>SendStream chatId jobId agentName fullResponse terminal\<close>: the stream opened by
    \<^verbatim>\<open>sendMessage\<close>;
  \<^item> \<^verbatim>\<open>RestartStream chatId jobId agentName terminal\<close>: the stream opened by
    \<^verbatim>\<open>restartJobStreaming\<close>;
  \<^item> \<^verbatim>\<open>SendPoll jobId chatId agentName attempts\<close>: the poll loop of
    \<^verbatim>\<open>pollJobStatus\<close>;
  \<^item> \<^verbatim>\<open>StartPoll chatId jobId pending\<close>: the poll loop of \<^verbatim>\<open>startJobPolling\<close>, with
    its timer pending or its request in flight;
  \<^item> \<^verbatim>\<open>StreamInterval chatId chars currentContent charIndex\<close>: the simulated
    streaming of normal mode;
  \<^item> \<^verbatim>\<open>ClearJobTimer\<close>: the timer that clears \<^verbatim>\<open>currentJob\<close> three seconds after
    a terminal frame.
\<close>

datatype channel =
    SendStream string string string string bool
  | RestartStream string string string bool
  | SendPoll string string string nat
  | StartPoll string string bool
  | StreamInterval string string string nat
  | ClearJobTimer

record world =
  store :: chat_state
  channels :: "(nat \<times> channel) list"
  next_handle :: nat

datatype event =
    Data string string
  | Complete stream_result string
  | StreamError
  | StatusReply "job_response reply" string
  | Tick

definition open_channel :: "channel \<Rightarrow> world \<Rightarrow> world" where
  "open_channel ch w =
     w\<lparr>channels := channels w @ [(next_handle w, ch)], next_handle := Suc (next_handle w)\<rparr>"

definition set_channel :: "nat \<Rightarrow> channel \<Rightarrow> world \<Rightarrow> world" where
  "set_channel h ch w =
     w\<lparr>channels := map (\<lambda>(k, c). if k = h then (k, ch) else (k, c)) (channels w)\<rparr>"

definition close_channel :: "nat \<Rightarrow> world \<Rightarrow> world" where
  "close_channel h w = w\<lparr>channels := filter (\<lambda>(k, c). k \<noteq> h) (channels w)\<rparr>"

definition set_store :: "chat_state \<Rightarrow> world \<Rightarrow> world" where
  "set_store s w = w\<lparr>store := s\<rparr>"

text \<open>
  \<^verbatim>\<open>startJobPolling(chatId, jobId)\<close>: the first request is issued before the cleanup
  closure is stored.
\<close>

definition startJobPolling :: "string \<Rightarrow> string \<Rightarrow> world \<Rightarrow> world" where
  "startJobPolling chatId jobId w =
     (let h = next_handle w;
          w1 = open_channel (StartPoll chatId jobId False)
                 (set_store ((store w)\<lparr>loadingChatId := Some chatId, isLoading := True\<rparr>) w)
      in set_store ((store w1)\<lparr>streamingCleanup := Some (ClearPollTimeout h)\<rparr>) w1)"

text \<open>
  Modelled from the spec: the function returned by \<^verbatim>\<open>api.streamJobEvents\<close>, which
  is not among the sources. Releasing the push channel closes its connection
  unconditionally.
\<close>

definition close_event_source :: "nat \<Rightarrow> world \<Rightarrow> world" where
  "close_event_source h w = close_channel h w"

text \<open>
  Running a cleanup closure. The closure of \<^verbatim>\<open>startJobPolling\<close> clears the timer
  if one is pending; the closure of normal mode clears the interval and sets two
  fields of the store.
\<close>

definition run_cleanup :: "cleanup \<Rightarrow> world \<Rightarrow> world" where
  "run_cleanup c w =
     (case c of
        CloseEventSource h \<Rightarrow> close_event_source h w
      | ClearPollTimeout h \<Rightarrow>
          (case map_of (channels w) h of
             Some (StartPoll chatId jobId True) \<Rightarrow> close_channel h w
           | _ \<Rightarrow> w)
      | ClearStreamInterval h \<Rightarrow>
          set_store ((store w)\<lparr>loadingChatId := None, isStreaming := False\<rparr>) (close_channel h w))"

definition stopStreaming :: "world \<Rightarrow> world" where
  "stopStreaming w =
     (case streamingCleanup (store w) of
        None \<Rightarrow> w
      | Some c \<Rightarrow>
          (let w1 = run_cleanup c w
           in set_store ((store w1)\<lparr>streamingCleanup := None, isStreaming := False,
                                     loadingChatId := None, currentJob := None\<rparr>) w1))"

definition restartJobStreaming :: "string \<Rightarrow> string \<Rightarrow> world \<Rightarrow> world" where
  "restartJobStreaming chatId jobId w =
     (let w1 = stopStreaming w
      in case find_chat chatId (chats (store w1)) of
           None \<Rightarrow> w1
         | Some ch \<Rightarrow>
             (let agentName = agent_name (agent_id ch) (agents (store w1));
                  h = next_handle w1;
                  w2 = open_channel (RestartStream chatId jobId agentName False)
                         (set_store ((store w1)\<lparr>loadingChatId := Some chatId, isLoading := False,
                                                 isStreaming := True\<rparr>) w1)
              in set_store ((store w2)\<lparr>streamingCleanup := Some (CloseEventSource h)\<rparr>) w2))"

text \<open>The timer set by a completion callback, when it set one.\<close>

definition after_complete :: "nat \<Rightarrow> channel \<Rightarrow> chat_state \<times> bool \<Rightarrow> world \<Rightarrow> world" where
  "after_complete h ch r w =
     (let w1 = set_channel h ch (set_store (fst r) w)
      in if snd r then open_channel ClearJobTimer w1 else w1)"

text \<open>
  The delivery of one event to the channel registered under a handle: the callback of
  that channel runs to completion. An event for a handle that is not registered, or
  of a kind the channel does not receive, is dropped. Of the push channel, whose
  source is missing, the spec says that a connection error after the terminal frame is
  ignored: the error callback does not run then.
\<close>

definition deliver :: "env \<Rightarrow> nat \<Rightarrow> event \<Rightarrow> world \<Rightarrow> world" where
  "deliver e h ev w =
     (case map_of (channels w) h of
        None \<Rightarrow> w
      | Some (SendStream chatId jobId agentName fullResponse terminal) \<Rightarrow>
          (case ev of
             Data dat now \<Rightarrow>
               (let r = sendMessage_onData e chatId dat now (fullResponse, store w)
                in set_channel h (SendStream chatId jobId agentName (fst r) terminal)
                     (set_store (snd r) w))
           | Complete res now \<Rightarrow>
               after_complete h (SendStream chatId jobId agentName fullResponse True)
                 (stream_onComplete e chatId jobId agentName res now (store w)) w
           | StreamError \<Rightarrow>
               if terminal then w
               else open_channel (SendPoll jobId chatId agentName 0)
                      (set_store ((store w)\<lparr>streamingCleanup := None\<rparr>) w)
           | _ \<Rightarrow> w)
      | Some (RestartStream chatId jobId agentName terminal) \<Rightarrow>
          (case ev of
             Data dat now \<Rightarrow> set_store (restartJobStreaming_onData e chatId dat (store w)) w
           | Complete res now \<Rightarrow>
               after_complete h (RestartStream chatId jobId agentName True)
                 (stream_onComplete e chatId jobId agentName res now (store w)) w
           | StreamError \<Rightarrow>
               if terminal then w
               else startJobPolling chatId jobId
                      (set_store ((store w)\<lparr>streamingCleanup := None\<rparr>) w)
           | _ \<Rightarrow> w)
      | Some (SendPoll jobId chatId agentName attempts) \<Rightarrow>
          (case ev of
             StatusReply rep now \<Rightarrow>
               (let r = pollJobStatus_poll e chatId agentName rep now (attempts, store w);
                    w1 = set_store (snd (fst r)) w
                in if snd r then set_channel h (SendPoll jobId chatId agentName (fst (fst r))) w1
                   else close_channel h w1)
           | _ \<Rightarrow> w)
      | Some (StartPoll chatId jobId pending) \<Rightarrow>
          (case ev of
             StatusReply rep now \<Rightarrow>
               if pending then w
               else (let r = startJobPolling_poll e chatId jobId rep now (store w);
                         w1 = set_store (fst r) w
                     in if snd r then set_channel h (StartPoll chatId jobId True) w1
                        else close_channel h w1)
           | Tick \<Rightarrow> if pending then set_channel h (StartPoll chatId jobId False) w else w
           | _ \<Rightarrow> w)
      | Some (StreamInterval chatId chars currentContent charIndex) \<Rightarrow>
          (case ev of
             Tick \<Rightarrow>
               if charIndex < length chars
               then set_channel h
                      (StreamInterval chatId chars (currentContent @ [chars ! charIndex]) (Suc charIndex))
                      (set_store (updateLastMessage chatId (currentContent @ [chars ! charIndex]) (store w)) w)
               else close_channel h
                      (set_store ((store w)\<lparr>loadingChatId := None, isStreaming := False\<rparr>) w)
           | _ \<Rightarrow> w)
      | Some ClearJobTimer \<Rightarrow>
          (case ev of
             Tick \<Rightarrow> close_channel h (set_store ((store w)\<lparr>currentJob := None\<rparr>) w)
           | _ \<Rightarrow> w))"

text \<open>A run of the event loop: the events are delivered in order.\<close>

fun deliver_all :: "env \<Rightarrow> (nat \<times> event) list \<Rightarrow> world \<Rightarrow> world" where
  "deliver_all e [] w = w"
| "deliver_all e ((h, ev) # evs) w = deliver_all e evs (deliver e h ev w)"

section \<open>Submitting a message\<close>

text \<open>
  \<^verbatim>\<open>createChat\<close>, from the reply of \<^verbatim>\<open>api.createChat\<close> on; the reply holds the new
  chat, with no messages when the response had none.
\<close>

definition createChat :: "chat reply \<Rightarrow> chat_state \<Rightarrow> string option + chat \<times> chat_state" where
  "createChat rep s =
     (case rep of
        Rejected err \<Rightarrow> Inl err
      | Resolved newChat \<Rightarrow>
          Inr (newChat, s\<lparr>chats := newChat # chats s, currentChatId := Some (id_c newChat)\<rparr>))"

text \<open>
  The replies to the requests \<^verbatim>\<open>sendMessage\<close> awaits, and the times it reads the
  clock at: for the user message, and for the message written after the awaited
  request.
\<close>

record send_io =
  createChat_reply :: "chat reply"
  createAgentChat_reply :: "chat reply"
  createJob_reply :: "job_response reply"
  sendMessage_reply :: "string reply"
  now_user :: string
  now_reply :: string

text \<open>The \<^verbatim>\<open>catch\<close> block of \<^verbatim>\<open>sendMessage\<close>.\<close>

definition sendMessage_catch :: "env \<Rightarrow> string \<Rightarrow> string option \<Rightarrow> string \<Rightarrow> world \<Rightarrow> world" where
  "sendMessage_catch e chatId err now w =
     (let errorMsg = error_prefix @ (case err of Some m \<Rightarrow> m | None \<Rightarrow> ''Failed to send message'');
          s1 = addMessage e chatId (assistant_message errorMsg now) (store w)
      in set_store (s1\<lparr>loadingChatId := None, isLoading := False, isStreaming := False,
                       currentJob := None, streamingCleanup := None\<rparr>) w)"

text \<open>
  The part of \<^verbatim>\<open>sendMessage\<close> after the chat is chosen. \<^verbatim>\<open>s0\<close> is the state
  read when \<^verbatim>\<open>sendMessage\<close> was entered, from which \<^verbatim>\<open>selectedAgentId\<close> and
  \<^verbatim>\<open>agents\<close> are taken.
\<close>

definition sendMessage_submit ::
  "env \<Rightarrow> string \<Rightarrow> send_io \<Rightarrow> chat_state \<Rightarrow> string \<Rightarrow> chat option \<Rightarrow> world \<Rightarrow> world" where
  "sendMessage_submit e cnt io s0 chatId currentChat w =
     (let userMessage = \<lparr>role = User, content = cnt, timestamp = now_user io\<rparr>;
          s1 = (addMessage e chatId userMessage (store w))
                 \<lparr>loadingChatId := Some chatId, isLoading := True, isStreaming := True\<rparr>;
          w1 = set_store s1 w;
          chatAgent = (case currentChat of None \<Rightarrow> None | Some c \<Rightarrow> agent_id c);
          agentName = agent_name (if truthy chatAgent then chatAgent else selectedAgentId s0) (agents s0)
      in if chatAgent \<noteq> None
         then (case createJob_reply io of
                 Rejected err \<Rightarrow> sendMessage_catch e chatId err (now_reply io) w1
               | Resolved job \<Rightarrow>
                   (let w2 = set_store ((store w1)\<lparr>currentJob := Some (job\<lparr>status := ''queued''\<rparr>)\<rparr>) w1
                    in if \<not> truthy (job_id job)
                       then sendMessage_catch e chatId (Some ''No job ID received'') (now_reply io) w2
                       else (let h = next_handle w2;
                                 w3 = open_channel (SendStream chatId (the (job_id job)) agentName [] False)
                                        (set_store ((store w2)\<lparr>currentJob := Some (job\<lparr>status := ''running''\<rparr>)\<rparr>) w2)
                             in set_store ((store w3)\<lparr>streamingCleanup := Some (CloseEventSource h)\<rparr>) w3)))
         else (case sendMessage_reply io of
                 Rejected err \<Rightarrow> sendMessage_catch e chatId err (now_reply io) w1
               | Resolved fullMessage \<Rightarrow>
                   (let s2 = (addMessage e chatId (assistant_message [] (now_reply io)) (store w1))
                               \<lparr>isLoading := False\<rparr>;
                        h = next_handle w1;
                        w2 = open_channel (StreamInterval chatId fullMessage [] 0) (set_store s2 w1)
                    in set_store ((store w2)\<lparr>streamingCleanup := Some (ClearStreamInterval h)\<rparr>) w2)))"

text \<open>
  \<^verbatim>\<open>sendMessage(content)\<close>. A rejected \<^verbatim>\<open>createChat\<close> is outside the
  \<^verbatim>\<open>try\<close> block and rejects \<^verbatim>\<open>sendMessage\<close>: the result is \<^verbatim>\<open>Inl\<close> of the error.
  The function runs from its call to the point where its channel is open; events that
  arrive while it awaits a reply are delivered before or after it.
\<close>

definition sendMessage :: "env \<Rightarrow> string \<Rightarrow> send_io \<Rightarrow> world \<Rightarrow> string option + world" where
  "sendMessage e cnt io w =
     (let s0 = store w;
          found = (case currentChatId s0 of None \<Rightarrow> None | Some i \<Rightarrow> find_chat i (chats s0));
          first = (if \<not> truthy (currentChatId s0)
                   then (case createChat (createChat_reply io) s0 of
                           Inl err \<Rightarrow> Inl err
                         | Inr (c, s1) \<Rightarrow> Inr (id_c c, Some c, s1))
                   else Inr (the (currentChatId s0), found, s0))
      in case first of
           Inl err \<Rightarrow> Inl err
         | Inr (chatId, currentChat, s1) \<Rightarrow>
             (let chatAgent = (case currentChat of None \<Rightarrow> None | Some c \<Rightarrow> agent_id c);
                  isAgentModePreferred = (chatMode s0 = AgentMode \<or> chatAgent \<noteq> None)
              in if isAgentModePreferred \<and> chatAgent = None
                 then (case createChat (createAgentChat_reply io) s1 of
                         Inl err \<Rightarrow> Inl err
                       | Inr (c, s2) \<Rightarrow>
                           Inr (sendMessage_submit e cnt io s0 (id_c c) (Some c) (set_store s2 w)))
                 else Inr (sendMessage_submit e cnt io s0 chatId currentChat (set_store s1 w))))"

section \<open>Scenarios\<close>

text \<open>
  The fixtures of the scenarios: one agent conversation \<^verbatim>\<open>C1\<close>, selected, with no
  message yet and no job in flight; the replies of the backend to a submit that
  creates job \<^verbatim>\<open>j\<close>.
\<close>

definition scenario_env :: env where
  "scenario_env =
     \<lparr>generateChatTitle = take 50, API_BASE_URL = ''http://localhost:8000'',
      JSON_parse = (\<lambda>dat. NotJSON)\<rparr>"

definition scenario_chat :: chat where
  "scenario_chat =
     \<lparr>id_c = ''C1'', title = ''New Chat'', provider = ''openai'', model_c = ''gpt'',
      agent_id = Some ''ts_fs_agent'', messages = []\<rparr>"

definition scenario_world :: world where
  "scenario_world =
     \<lparr>store = \<lparr>chats = [scenario_chat], currentChatId = Some ''C1'', agents = [],
               selectedProvider = ''openai'', selectedModel = ''gpt'',
               selectedAgentId = Some ''ts_fs_agent'', chatMode = AgentMode,
               loadingChatId = None, isLoading = False, isStreaming = False,
               currentJob = None, streamingCleanup = None\<rparr>,
      channels = [], next_handle = 0\<rparr>"

definition scenario_io :: "string \<Rightarrow> send_io" where
  "scenario_io j =
     \<lparr>createChat_reply = Rejected None, createAgentChat_reply = Rejected None,
      createJob_reply = Resolved \<lparr>job_id = Some j, chat_id = Some ''C1'', status = ''queued'',
                                 result_message = None, output_docx_url = None, error = None\<rparr>,
      sendMessage_reply = Rejected None, now_user = ''t0'', now_reply = ''t1''\<rparr>"

text \<open>The world after a submit, the unchanged world when the submit was rejected.\<close>

definition submit :: "string \<Rightarrow> string \<Rightarrow> world \<Rightarrow> world" where
  "submit cnt j w = (case sendMessage scenario_env cnt (scenario_io j) w of Inl err \<Rightarrow> w | Inr w' \<Rightarrow> w')"

text \<open>
  The world after the submit of job \<^verbatim>\<open>J1\<close>, with its stream open, and its store;
  and the world after that stream failed and the job fell back to polling.
\<close>

definition scenario_streaming :: world where
  "scenario_streaming = submit ''hi'' ''J1'' scenario_world"

definition scenario_store :: chat_state where
  "scenario_store = store scenario_streaming"

definition scenario_polling :: world where
  "scenario_polling = deliver scenario_env 0 StreamError scenario_streaming"

definition status_reply :: "string \<Rightarrow> string option \<Rightarrow> string option \<Rightarrow> job_response reply" where
  "status_reply st msg err =
     Resolved \<lparr>job_id = None, chat_id = None, status = st, result_message = msg,
               output_docx_url = None, error = err\<rparr>"

definition text_frame :: "string \<Rightarrow> string \<Rightarrow> stream_result" where
  "text_frame st txt =
     \<lparr>status_r = st,
      result_r = Some (PayloadObject \<lparr>result_message_p = None, text_p = Some txt, message_p = None,
                                      output_docx_path = None, output_docx_url_p = None\<rparr>),
      error_r = None\<rparr>"

text \<open>The transcript of the first conversation with the given id, as roles and contents.\<close>

definition transcript_of :: "string \<Rightarrow> chat_state \<Rightarrow> (role \<times> string) list" where
  "transcript_of chatId s =
     (case find_chat chatId (chats s) of
        None \<Rightarrow> []
      | Some c \<Rightarrow> map (\<lambda>m. (role m, content m)) (messages c))"

definition transcript :: "string \<Rightarrow> world \<Rightarrow> (role \<times> string) list" where
  "transcript chatId w = transcript_of chatId (store w)"

text \<open>
  One final assistant message with the given content was applied to a message list:
  appended to it, or written over its last message when that was an assistant message.
\<close>

definition one_final_message :: "string \<Rightarrow> message list \<Rightarrow> message list \<Rightarrow> bool" where
  "one_final_message txt before after =
     (after \<noteq> [] \<and> role (last after) = Assistant \<and> content (last after) = txt \<and>
      (butlast after = before \<or>
       (before \<noteq> [] \<and> role (last before) = Assistant \<and> butlast after = butlast before)))"

section \<open>The store as a heap of arrays and objects\<close>

text \<open>
  The arrays and objects of the JavaScript store, with their identity: a heap is a list
  of cells and an address is an index into it. A message object, an array of message
  references, a chat object holding the reference of its \<^verbatim>\<open>messages\<close> array and an
  array of chat references are cells. Allocation appends a cell, so the addresses
  below the length of the heap are the cells that existed before.
\<close>

type_synonym addr = nat

record chat_obj =
  o_id :: string
  o_title :: string
  o_provider :: string
  o_model :: string
  o_agent_id :: "string option"
  o_messages :: addr

datatype cell = MessageObj message | MessageArr "addr list" | ChatObj chat_obj | ChatArr "addr list"

type_synonym heap = "cell list"

definition lookup :: "heap \<Rightarrow> addr \<Rightarrow> cell option" where
  "lookup h a = (if a < length h then Some (h ! a) else None)"

definition alloc :: "cell \<Rightarrow> heap \<Rightarrow> addr \<times> heap" where
  "alloc c h = (length h, h @ [c])"

definition write_cell :: "addr \<Rightarrow> cell \<Rightarrow> heap \<Rightarrow> heap" where
  "write_cell a c h = h[a := c]"

text \<open>What a reader that holds a reference sees: the value behind it, if the cells fit.\<close>

definition read_message :: "heap \<Rightarrow> addr \<Rightarrow> message option" where
  "read_message h a = (case lookup h a of Some (MessageObj m) \<Rightarrow> Some m | _ \<Rightarrow> None)"

definition read_messages :: "heap \<Rightarrow> addr \<Rightarrow> message list option" where
  "read_messages h a =
     (case lookup h a of Some (MessageArr ms) \<Rightarrow> those (map (read_message h) ms) | _ \<Rightarrow> None)"

definition chat_of :: "chat_obj \<Rightarrow> message list \<Rightarrow> chat" where
  "chat_of co ms =
     \<lparr>id_c = o_id co, title = o_title co, provider = o_provider co, model_c = o_model co,
      agent_id = o_agent_id co, messages = ms\<rparr>"

definition read_chat :: "heap \<Rightarrow> addr \<Rightarrow> chat option" where
  "read_chat h a =
     (case lookup h a of
        Some (ChatObj co) \<Rightarrow> map_option (chat_of co) (read_messages h (o_messages co))
      | _ \<Rightarrow> None)"

definition read_chats :: "heap \<Rightarrow> addr \<Rightarrow> chat list option" where
  "read_chats h a =
     (case lookup h a of Some (ChatArr cs) \<Rightarrow> those (map (read_chat h) cs) | _ \<Rightarrow> None)"

text \<open>
  \<^verbatim>\<open>addMessage\<close> on the heap. \<^verbatim>\<open>chats.map\<close> builds a new array; for the chat with
  the given id, \<^verbatim>\<open>[...chat.messages, message]\<close> and \<^verbatim>\<open>{ ...chat, messages, title }\<close>
  allocate a new array and a new object, and every other chat is returned as the same
  reference. \<^verbatim>\<open>None\<close> is a reference that does not hold what the code reads from it.
\<close>

fun addMessage_map :: "env \<Rightarrow> string \<Rightarrow> addr \<Rightarrow> addr list \<Rightarrow> heap \<Rightarrow> (addr list \<times> heap) option" where
  "addMessage_map e chatId m [] h = Some ([], h)"
| "addMessage_map e chatId m (c # cs) h =
     (case lookup h c of
        Some (ChatObj co) \<Rightarrow>
          if o_id co = chatId
          then (case (lookup h (o_messages co), lookup h m) of
                  (Some (MessageArr ms), Some (MessageObj msg)) \<Rightarrow>
                    (let (ma, h1) = alloc (MessageArr (ms @ [m])) h;
                         (ca, h2) = alloc (ChatObj (co\<lparr>o_messages := ma,
                                       o_title := (if length ms = 0 \<and> role msg = User
                                                   then generateChatTitle e (content msg)
                                                   else o_title co)\<rparr>)) h1
                     in map_option (\<lambda>(cs', h'). (ca # cs', h')) (addMessage_map e chatId m cs h2))
                | _ \<Rightarrow> None)
          else map_option (\<lambda>(cs', h'). (c # cs', h')) (addMessage_map e chatId m cs h)
      | _ \<Rightarrow> None)"

definition addMessage_heap :: "env \<Rightarrow> string \<Rightarrow> addr \<Rightarrow> addr \<Rightarrow> heap \<Rightarrow> (addr \<times> heap) option" where
  "addMessage_heap e chatId m r h =
     (case lookup h r of
        Some (ChatArr cs) \<Rightarrow>
          map_option (\<lambda>(cs', h'). alloc (ChatArr cs') h') (addMessage_map e chatId m cs h)
      | _ \<Rightarrow> None)"

text \<open>
  \<^verbatim>\<open>updateLastMessage\<close> on the heap: \<^verbatim>\<open>[...chat.messages]\<close> allocates the copy,
  \<^verbatim>\<open>{ ...messages[messages.length - 1], content }\<close> a new message object, and the
  assignment to the last index writes into the copy.
\<close>

fun updateLastMessage_map :: "string \<Rightarrow> string \<Rightarrow> addr list \<Rightarrow> heap \<Rightarrow> (addr list \<times> heap) option" where
  "updateLastMessage_map chatId c [] h = Some ([], h)"
| "updateLastMessage_map chatId c (a # as) h =
     (case lookup h a of
        Some (ChatObj co) \<Rightarrow>
          if o_id co = chatId
          then (case lookup h (o_messages co) of
                  Some (MessageArr ms) \<Rightarrow>
                    if length ms > 0
                    then (case lookup h (ms ! (length ms - 1)) of
                            Some (MessageObj old) \<Rightarrow>
                              (let (ma, h1) = alloc (MessageArr ms) h;
                                   (mo, h2) = alloc (MessageObj (old\<lparr>content := c\<rparr>)) h1;
                                   h3 = write_cell ma (MessageArr (ms[length ms - 1 := mo])) h2;
                                   (ca, h4) = alloc (ChatObj (co\<lparr>o_messages := ma\<rparr>)) h3
                               in map_option (\<lambda>(as', h'). (ca # as', h'))
                                    (updateLastMessage_map chatId c as h4))
                          | _ \<Rightarrow> None)
                    else map_option (\<lambda>(as', h'). (a # as', h')) (updateLastMessage_map chatId c as h)
                | _ \<Rightarrow> None)
          else map_option (\<lambda>(as', h'). (a # as', h')) (updateLastMessage_map chatId c as h)
      | _ \<Rightarrow> None)"

definition updateLastMessage_heap :: "string \<Rightarrow> string \<Rightarrow> addr \<Rightarrow> heap \<Rightarrow> (addr \<times> heap) option" where
  "updateLastMessage_heap chatId c r h =
     (case lookup h r of
        Some (ChatArr cs) \<Rightarrow>
          map_option (\<lambda>(cs', h'). alloc (ChatArr cs') h') (updateLastMessage_map chatId c cs h)
      | _ \<Rightarrow> None)"

text \<open>The callbacks of \<^verbatim>\<open>chats.map\<close> in the two mutators, on values.\<close>

definition add_to :: "env \<Rightarrow> string \<Rightarrow> message \<Rightarrow> chat \<Rightarrow> chat" where
  "add_to e chatId m c =
     (if id_c c = chatId
      then c\<lparr>messages := messages c @ [m],
             title := (if length (messages c) = 0 \<and> role m = User
                       then generateChatTitle e (content m) else title c)\<rparr>
      else c)"

definition replace_last :: "string \<Rightarrow> string \<Rightarrow> chat \<Rightarrow> chat" where
  "replace_last chatId c ch =
     (if id_c ch = chatId \<and> length (messages ch) > 0
      then ch\<lparr>messages := (messages ch)[length (messages ch) - 1 :=
                 (messages ch ! (length (messages ch) - 1))\<lparr>content := c\<rparr>]\<rparr>
      else ch)"

text \<open>
  The fixture of the heap: the store after the submit of the scenario, the array of
  chats at address 3, and a new assistant message at address 4.
\<close>

definition scenario_heap :: heap where
  "scenario_heap =
     [MessageObj \<lparr>role = User, content = ''hi'', timestamp = ''t0''\<rparr>,
      MessageArr [0],
      ChatObj \<lparr>o_id = ''C1'', o_title = ''hi'', o_provider = ''openai'', o_model = ''gpt'',
               o_agent_id = Some ''ts_fs_agent'', o_messages = 1\<rparr>,
      ChatArr [2],
      MessageObj \<lparr>role = Assistant, content = ''Hello'', timestamp = ''t2''\<rparr>]"

section \<open>Evaluation\<close>

lemmas scenario_defs =
  scenario_env_def scenario_chat_def scenario_world_def scenario_io_def submit_def
  scenario_streaming_def scenario_store_def scenario_polling_def status_reply_def text_frame_def transcript_def
  transcript_of_def

lemmas store_defs =
  sendMessage_def sendMessage_submit_def sendMessage_catch_def createChat_def deliver_def
  after_complete_def open_channel_def set_channel_def close_channel_def set_store_def
  close_event_source_def run_cleanup_def stopStreaming_def restartJobStreaming_def
  startJobPolling_def
  stream_onComplete_def sendMessage_onData_def restartJobStreaming_onData_def
  pollJobStatus_poll_def startJobPolling_poll_def replace_or_append_def addMessage_def
  updateLastMessage_def lastIsAssistant_def lastMsg_def find_chat_def truthy_def or_else_def
  agent_name_def mark_job_def clear_job_def assistant_message_def poll_completed_text_def
  completed_text_def payload_truthy_def append_to_chat_def poll_finished_def newline_def
  error_prefix_def download_link_def absolute_url_def strip_ws_def js_whitespace_def Let_def

section \<open>Replacing the last message\<close>

lemma list_update_last:
  "ms \<noteq> [] \<Longrightarrow> ms[length ms - Suc 0 := f (ms ! (length ms - Suc 0))] = butlast ms @ [f (last ms)]"
  by (induction ms rule: rev_induct) (simp_all add: nth_append)

lemma updateLastMessage_nth:
  assumes "i < length (chats s)"
  shows "chats (updateLastMessage chatId c s) ! i =
     (if id_c (chats s ! i) = chatId \<and> messages (chats s ! i) \<noteq> []
      then (chats s ! i)\<lparr>messages := butlast (messages (chats s ! i)) @
              [(last (messages (chats s ! i)))\<lparr>content := c\<rparr>]\<rparr>
      else chats s ! i)"
  using assms by (simp add: updateLastMessage_def list_update_last)

lemma updateLastMessage_length: "length (chats (updateLastMessage chatId c s)) = length (chats s)"
  by (simp add: updateLastMessage_def)

text \<open>
  C5, as the store has it. \<^verbatim>\<open>updateLastMessage\<close> does not look at the role: in the
  conversation with the given id it replaces the content of the most recent message,
  whatever its role, and keeps the role and the timestamp of that message and every
  earlier message. A conversation with no message, and every conversation with another
  id, is unchanged. The number of conversations and the number of messages of each
  conversation stay the same, so no message is created.
\<close>

theorem updateLastMessage_replaces_any_role:
  assumes "i < length (chats s)"
  shows "length (chats (updateLastMessage chatId c s)) = length (chats s) \<and>
     length (messages (chats (updateLastMessage chatId c s) ! i)) = length (messages (chats s ! i)) \<and>
     (if id_c (chats s ! i) = chatId \<and> messages (chats s ! i) \<noteq> []
      then messages (chats (updateLastMessage chatId c s) ! i) =
             butlast (messages (chats s ! i)) @ [(last (messages (chats s ! i)))\<lparr>content := c\<rparr>]
      else chats (updateLastMessage chatId c s) ! i = chats s ! i)"
  using assms by (simp add: updateLastMessage_nth updateLastMessage_length)

theorem updateLastMessage_replaces_any_role_witness:
  "0 < length (chats scenario_store) \<and>
   messages (chats (updateLastMessage ''C1'' ''x'' scenario_store) ! 0) =
     [\<lparr>role = User, content = ''x'', timestamp = ''t0''\<rparr>]"
proof -
  have h: "0 < length (chats scenario_store)"
    by (simp add: scenario_defs store_defs)
  have m: "messages (chats scenario_store ! 0) =
      [\<lparr>role = User, content = ''hi'', timestamp = ''t0''\<rparr>]"
    and c: "id_c (chats scenario_store ! 0) = ''C1''"
    by (simp_all add: scenario_defs store_defs)
  from updateLastMessage_replaces_any_role [OF h, of "''C1''" "''x''"] h m c
  show ?thesis
    by simp
qed

text \<open>
  C5 as stated fails: after a submit the most recent message of \<^verbatim>\<open>C1\<close> is the user
  message, and \<^verbatim>\<open>updateLastMessage\<close> replaces its content.
\<close>

theorem updateLastMessage_user_message_counterexample:
  "transcript_of ''C1'' scenario_store = [(User, ''hi'')] \<and>
   \<not> lastIsAssistant ''C1'' (chats scenario_store) \<and>
   transcript_of ''C1'' (updateLastMessage ''C1'' ''x'' scenario_store) =
     [(User, ''x'')]"
  by (simp add: scenario_defs store_defs)

section \<open>Cancelling\<close>

text \<open>
  C10. With no cleanup function registered, \<^verbatim>\<open>stopStreaming\<close> changes nothing: the
  store, with its flags and its job, and the channels are as before.
\<close>

theorem stopStreaming_without_cleanup:
  "streamingCleanup (store w) = None \<Longrightarrow> stopStreaming w = w"
  by (simp add: stopStreaming_def)

text \<open>
  The witness is the world after a submit whose stream failed and fell back to
  polling: the job is in flight and no cleanup is registered.
\<close>

theorem stopStreaming_without_cleanup_witness:
  "streamingCleanup (store scenario_polling) = None \<and>
   isStreaming (store scenario_polling) \<and>
   isLoading (store scenario_polling) \<and>
   stopStreaming scenario_polling = scenario_polling"
proof -
  have h: "streamingCleanup (store scenario_polling) = None"
    by (simp add: scenario_defs store_defs)
  have f: "isStreaming (store scenario_polling)" "isLoading (store scenario_polling)"
    by (simp_all add: scenario_defs store_defs)
  from stopStreaming_without_cleanup [OF h] h f show ?thesis
    by simp
qed

text \<open>
  C4, as the store has it. When a cleanup function is registered, \<^verbatim>\<open>stopStreaming\<close>
  leaves every conversation as it was and clears \<^verbatim>\<open>isStreaming\<close>,
  \<^verbatim>\<open>loadingChatId\<close>, \<^verbatim>\<open>currentJob\<close> and \<^verbatim>\<open>streamingCleanup\<close>.
\<close>

theorem stopStreaming_with_cleanup:
  "streamingCleanup (store w) \<noteq> None \<Longrightarrow>
     chats (store (stopStreaming w)) = chats (store w) \<and>
     \<not> isStreaming (store (stopStreaming w)) \<and>
     loadingChatId (store (stopStreaming w)) = None \<and>
     currentJob (store (stopStreaming w)) = None \<and>
     streamingCleanup (store (stopStreaming w)) = None"
  by (auto simp: stopStreaming_def run_cleanup_def close_event_source_def set_store_def
        close_channel_def Let_def
      split: cleanup.splits option.splits channel.splits bool.splits)

theorem stopStreaming_with_cleanup_witness:
  "streamingCleanup (store scenario_streaming) \<noteq> None \<and>
   isStreaming (store scenario_streaming) \<and>
   chats (store (stopStreaming scenario_streaming)) = chats (store scenario_streaming) \<and>
   \<not> isStreaming (store (stopStreaming scenario_streaming)) \<and>
   loadingChatId (store (stopStreaming scenario_streaming)) = None \<and>
   currentJob (store (stopStreaming scenario_streaming)) = None \<and>
   streamingCleanup (store (stopStreaming scenario_streaming)) = None"
proof -
  have h: "streamingCleanup (store scenario_streaming) \<noteq> None"
    and f: "isStreaming (store scenario_streaming)"
    by (simp_all add: scenario_defs store_defs)
  from stopStreaming_with_cleanup [OF h] h f show ?thesis
    by simp
qed

text \<open>
  C4 as stated fails twice. Cancelling the job of a submit, with its stream open,
  leaves \<^verbatim>\<open>isLoading\<close> set; and once the stream has failed and the job is polled, no
  cleanup is registered and cancelling clears nothing.
\<close>

theorem stopStreaming_flags_counterexample:
  "isLoading (store (stopStreaming scenario_streaming)) \<and>
   isStreaming (store (stopStreaming scenario_polling)) \<and>
   isLoading (store (stopStreaming scenario_polling)) \<and>
   loadingChatId (store (stopStreaming scenario_polling)) = Some ''C1''"
  by (simp add: scenario_defs store_defs)

section \<open>Terminal reports\<close>

lemma find_chat_first:
  assumes "i < length cs" "id_c (cs ! i) = chatId" "\<forall>j<i. id_c (cs ! j) \<noteq> chatId"
  shows "find_chat chatId cs = Some (cs ! i)"
  using assms unfolding find_chat_def find_Some_iff by blast

lemma lastIsAssistant_first:
  assumes "i < length cs" "id_c (cs ! i) = chatId" "\<forall>j<i. id_c (cs ! j) \<noteq> chatId"
  shows "lastIsAssistant chatId cs =
     (messages (cs ! i) \<noteq> [] \<and> role (last (messages (cs ! i))) = Assistant)"
  by (simp add: lastIsAssistant_def lastMsg_def find_chat_first [OF assms])

lemma addMessage_nth:
  assumes "i < length (chats s)"
  shows "chats (addMessage e chatId m s) ! i =
     (if id_c (chats s ! i) = chatId
      then (chats s ! i)\<lparr>messages := messages (chats s ! i) @ [m],
             title := (if messages (chats s ! i) = [] \<and> role m = User
                       then generateChatTitle e (content m) else title (chats s ! i))\<rparr>
      else chats s ! i)"
  using assms by (simp add: addMessage_def)

lemma replace_or_append_first:
  assumes "i < length (chats s)" "id_c (chats s ! i) = chatId" "\<forall>j<i. id_c (chats s ! j) \<noteq> chatId"
  shows "one_final_message txt (messages (chats s ! i))
            (messages (chats (replace_or_append e chatId txt now s) ! i))"
  using assms
  by (simp add: replace_or_append_def lastIsAssistant_first [OF assms] updateLastMessage_nth
      addMessage_nth one_final_message_def)

lemma replace_or_append_other:
  assumes "i < length (chats s)" "id_c (chats s ! i) \<noteq> chatId"
  shows "chats (replace_or_append e chatId txt now s) ! i = chats s ! i"
  using assms by (simp add: replace_or_append_def updateLastMessage_nth addMessage_nth)

lemma replace_or_append_job:
  "chats (replace_or_append e chatId txt now (s\<lparr>currentJob := j\<rparr>)) = chats (replace_or_append e chatId txt now s)"
  by (simp add: replace_or_append_def updateLastMessage_def addMessage_def)

lemma chats_mark_job [simp]: "chats (mark_job f s) = chats s"
  by (simp add: mark_job_def)

lemma chats_clear_job [simp]: "chats (clear_job s) = chats s"
  by (simp add: clear_job_def)

lemma replace_or_append_mark_job:
  "chats (replace_or_append e chatId txt now (mark_job f s)) = chats (replace_or_append e chatId txt now s)"
  by (simp add: replace_or_append_def updateLastMessage_def addMessage_def mark_job_def)

lemma replace_or_append_cleanup:
  "chats (replace_or_append e chatId txt now (s\<lparr>streamingCleanup := c\<rparr>)) = chats (replace_or_append e chatId txt now s)"
  by (simp add: replace_or_append_def updateLastMessage_def addMessage_def)

lemma stream_onComplete_chats:
  "chats (fst (stream_onComplete e chatId jobId agentName res now s)) =
     (if status_r res = ''completed'' \<and> payload_truthy (result_r res)
      then chats (replace_or_append e chatId (completed_text e jobId agentName (the (result_r res))) now s)
      else if status_r res = ''failed''
      then chats (replace_or_append e chatId (error_prefix @ or_else (error_r res) ''Job failed'') now s)
      else chats s)"
  by (simp add: stream_onComplete_def Let_def replace_or_append_mark_job replace_or_append_cleanup)

lemma pollJobStatus_poll_chats:
  "chats (snd (fst (pollJobStatus_poll e chatId agentName (Resolved st) now (n, s)))) =
     (if status st = ''completed''
      then chats (addMessage e chatId (assistant_message (poll_completed_text e agentName st) now) s)
      else if status st = ''failed''
      then chats (addMessage e chatId (assistant_message (error_prefix @ or_else (error st) ''Job failed'') now) s)
      else if Suc n < maxAttempts then chats s
      else chats (addMessage e chatId (assistant_message (error_prefix @ ''Request timed out'') now) s))"
  by (simp add: pollJobStatus_poll_def Let_def)

text \<open>
  C1, as the store has it. A terminal report is applied by the callback that receives
  it, and each report that carries an outcome applies one final message to the first
  conversation with the id of the subscription: the completion callback of the stream,
  for a completed frame with a result or a failed frame, appends an assistant message
  or writes over the last message when that is an assistant message, and changes no
  conversation for any other frame; the terminal branches of \<^verbatim>\<open>pollJobStatus\<close>, and
  its timeout, append one assistant message. The store keeps no record of the reports
  a job has had, so two reports for one job are two mutations.
\<close>

theorem terminal_report_one_message:
  assumes "i < length (chats s)" "id_c (chats s ! i) = chatId" "\<forall>j<i. id_c (chats s ! j) \<noteq> chatId"
  shows "(if status_r res = ''completed'' \<and> payload_truthy (result_r res)
      then one_final_message (completed_text e jobId agentName (the (result_r res)))
             (messages (chats s ! i))
             (messages (chats (fst (stream_onComplete e chatId jobId agentName res now s)) ! i))
      else if status_r res = ''failed''
      then one_final_message (error_prefix @ or_else (error_r res) ''Job failed'')
             (messages (chats s ! i))
             (messages (chats (fst (stream_onComplete e chatId jobId agentName res now s)) ! i))
      else chats (fst (stream_onComplete e chatId jobId agentName res now s)) = chats s) \<and>
     messages (chats (snd (fst (pollJobStatus_poll e chatId agentName (Resolved st) now (n, s)))) ! i) =
       (if status st = ''completed''
        then messages (chats s ! i) @ [assistant_message (poll_completed_text e agentName st) now]
        else if status st = ''failed''
        then messages (chats s ! i) @ [assistant_message (error_prefix @ or_else (error st) ''Job failed'') now]
        else if Suc n < maxAttempts then messages (chats s ! i)
        else messages (chats s ! i) @ [assistant_message (error_prefix @ ''Request timed out'') now])"
  using assms
  by (simp add: stream_onComplete_chats pollJobStatus_poll_chats replace_or_append_first addMessage_nth)

theorem terminal_report_one_message_witness:
  "0 < length (chats scenario_store) \<and>
   id_c (chats scenario_store ! 0) = ''C1'' \<and>
   one_final_message ''done'' (messages (chats scenario_store ! 0))
     (messages (chats (fst (stream_onComplete scenario_env ''C1'' ''J1'' ''ts_fs_agent''
        (text_frame ''completed'' ''done'') ''t2'' scenario_store)) ! 0)) \<and>
   messages (chats (snd (fst (pollJobStatus_poll scenario_env ''C1'' ''ts_fs_agent''
        (status_reply ''failed'' None (Some ''boom'')) ''t2'' (0, scenario_store)))) ! 0) =
     messages (chats scenario_store ! 0) @ [assistant_message (error_prefix @ ''boom'') ''t2'']"
proof -
  have h: "0 < length (chats scenario_store)"
    "id_c (chats scenario_store ! 0) = ''C1''"
    "\<forall>j<0. id_c (chats scenario_store ! j) \<noteq> ''C1''"
    by (simp_all add: scenario_defs store_defs)
  have r: "status_r (text_frame ''completed'' ''done'') = ''completed''"
    "payload_truthy (result_r (text_frame ''completed'' ''done''))"
    "completed_text scenario_env ''J1'' ''ts_fs_agent''
       (the (result_r (text_frame ''completed'' ''done''))) = ''done''"
    by (simp_all add: text_frame_def payload_truthy_def completed_text_def or_else_def truthy_def)
  from terminal_report_one_message [OF h, where res = "text_frame ''completed'' ''done''"
      and e = scenario_env and jobId = "''J1''" and agentName = "''ts_fs_agent''" and now = "''t2''"
      and st = "\<lparr>job_id = None, chat_id = None, status = ''failed'', result_message = None,
        output_docx_url = None, error = Some ''boom''\<rparr>" and n = 0] h(1,2) r
  show ?thesis
    by (simp add: status_reply_def or_else_def)
qed

text \<open>
  C1 as stated fails. The stream of job \<^verbatim>\<open>J1\<close> reports completion and the poll of the
  same job reports completion: the transcript ends with two final messages. A
  completed frame without a result applies none.
\<close>

theorem terminal_reports_counterexample:
  "transcript_of ''C1''
     (snd (fst (pollJobStatus_poll scenario_env ''C1'' ''ts_fs_agent''
        (status_reply ''completed'' (Some ''done'') None) ''t3''
        (0, fst (stream_onComplete scenario_env ''C1'' ''J1'' ''ts_fs_agent''
               (text_frame ''completed'' ''done'') ''t2'' scenario_store))))) =
     [(User, ''hi''), (Assistant, ''done''), (Assistant, ''done'')] \<and>
   transcript_of ''C1''
     (fst (stream_onComplete scenario_env ''C1'' ''J1'' ''ts_fs_agent''
        \<lparr>status_r = ''completed'', result_r = None, error_r = None\<rparr> ''t2'' scenario_store)) =
     [(User, ''hi'')]"
  by (simp add: scenario_defs store_defs)

text \<open>
  The same two reports as a run of the event loop: the stream fails, which starts the
  poll, then delivers its terminal frame, and the poll finds the job completed.
\<close>

lemma terminal_reports_run:
  "transcript ''C1'' (deliver_all scenario_env
      [(0, StreamError), (0, Complete (text_frame ''completed'' ''done'') ''t2''),
       (1, StatusReply (status_reply ''completed'' (Some ''done'') None) ''t3'')]
      scenario_streaming) =
     [(User, ''hi''), (Assistant, ''done''), (Assistant, ''done'')]"
  by (simp add: scenario_defs store_defs)

section \<open>Events of a job that is not the active one\<close>

lemma sendMessage_onData_chats:
  "chats (snd (sendMessage_onData e chatId dat now (f, s))) =
     (if js_blank (f @ dat @ newline) then chats s
      else chats (replace_or_append e chatId (f @ dat @ newline) now s))"
  by (simp add: sendMessage_onData_def Let_def)

lemma restartJobStreaming_onData_other:
  assumes "i < length (chats s)" "id_c (chats s ! i) \<noteq> chatId"
  shows "chats (restartJobStreaming_onData e chatId dat s) ! i = chats s ! i"
  using assms
  by (simp add: restartJobStreaming_onData_def Let_def updateLastMessage_nth split: parsed_frame.splits)

lemma restartJobStreaming_onData_job:
  "chats (restartJobStreaming_onData e chatId dat (s\<lparr>currentJob := j\<rparr>)) =
   chats (restartJobStreaming_onData e chatId dat s)"
  by (simp add: restartJobStreaming_onData_def Let_def updateLastMessage_def split: parsed_frame.splits)

text \<open>
  C2, as the store has it. The callbacks of a stream never compare a job id: what a
  fragment or a terminal frame does to the transcript is the same whatever
  \<^verbatim>\<open>currentJob\<close> holds. An event changes only the conversations with the id its
  subscription was opened for; every conversation with another id is unchanged.
\<close>

theorem events_not_matched_to_active_job:
  "chats (snd (sendMessage_onData e chatId dat now (f, s\<lparr>currentJob := j\<rparr>))) =
     chats (snd (sendMessage_onData e chatId dat now (f, s))) \<and>
   chats (restartJobStreaming_onData e chatId dat (s\<lparr>currentJob := j\<rparr>)) =
     chats (restartJobStreaming_onData e chatId dat s) \<and>
   chats (fst (stream_onComplete e chatId jobId agentName res now (s\<lparr>currentJob := j\<rparr>))) =
     chats (fst (stream_onComplete e chatId jobId agentName res now s)) \<and>
   (i < length (chats s) \<and> id_c (chats s ! i) \<noteq> chatId \<longrightarrow>
      chats (snd (sendMessage_onData e chatId dat now (f, s))) ! i = chats s ! i \<and>
      chats (restartJobStreaming_onData e chatId dat s) ! i = chats s ! i \<and>
      chats (fst (stream_onComplete e chatId jobId agentName res now s)) ! i = chats s ! i)"
  by (simp add: sendMessage_onData_chats stream_onComplete_chats replace_or_append_job
      restartJobStreaming_onData_job replace_or_append_other restartJobStreaming_onData_other)

theorem events_not_matched_to_active_job_witness:
  "0 < length (chats scenario_store) \<and>
   id_c (chats scenario_store ! 0) \<noteq> ''C2'' \<and>
   chats (snd (sendMessage_onData scenario_env ''C2'' ''late'' ''t4'' ([], scenario_store))) ! 0 =
     chats scenario_store ! 0 \<and>
   chats (fst (stream_onComplete scenario_env ''C2'' ''J2'' ''agent''
            (text_frame ''completed'' ''done'') ''t4'' scenario_store)) ! 0 =
     chats scenario_store ! 0"
proof -
  have h: "0 < length (chats scenario_store)"
    "id_c (chats scenario_store ! 0) \<noteq> ''C2''"
    by (simp_all add: scenario_defs store_defs)
  from events_not_matched_to_active_job [where e = scenario_env and chatId = "''C2''"
      and dat = "''late''" and now = "''t4''" and f = "[]"
      and s = "scenario_store" and j = None and jobId = "''J2''"
      and agentName = "''agent''" and res = "text_frame ''completed'' ''done''" and i = 0] h
  show ?thesis
    by simp
qed

text \<open>
  C2 as stated fails. The stream of \<^verbatim>\<open>J1\<close> failed, the poll applied the final message
  and cleared \<^verbatim>\<open>currentJob\<close>; a fragment of the stream that arrives then writes over
  the final message.
\<close>

theorem stale_fragment_counterexample:
  "currentJob (snd (fst (pollJobStatus_poll scenario_env ''C1'' ''ts_fs_agent''
      (status_reply ''completed'' (Some ''done'') None) ''t3'' (0, scenario_store)))) = None \<and>
   transcript_of ''C1'' (snd (fst (pollJobStatus_poll scenario_env ''C1'' ''ts_fs_agent''
      (status_reply ''completed'' (Some ''done'') None) ''t3'' (0, scenario_store)))) =
     [(User, ''hi''), (Assistant, ''done'')] \<and>
   transcript_of ''C1'' (snd (sendMessage_onData scenario_env ''C1'' ''late'' ''t4''
      ([], snd (fst (pollJobStatus_poll scenario_env ''C1'' ''ts_fs_agent''
        (status_reply ''completed'' (Some ''done'') None) ''t3'' (0, scenario_store)))))) =
     [(User, ''hi''), (Assistant, ''late'' @ newline)]"
  by (simp add: scenario_defs store_defs)

section \<open>Submitting while a stream is open\<close>

text \<open>
  \<^verbatim>\<open>sendMessage\<close> closes no channel: the channels that were open when it was called
  are open when it returns, followed by the one it opened.
\<close>

lemma sendMessage_catch_channels: "channels (sendMessage_catch e chatId err now w) = channels w"
  by (simp add: sendMessage_catch_def set_store_def Let_def)

lemma sendMessage_submit_channels:
  "channels w0 = cs \<Longrightarrow> prefix cs (channels (sendMessage_submit e cnt io s0 chatId currentChat w0))"
  by (auto simp: sendMessage_submit_def sendMessage_catch_channels set_store_def open_channel_def Let_def
      split: reply.splits)

lemma sendMessage_never_releases:
  "sendMessage e cnt io w = Inr w' \<Longrightarrow> prefix (channels w) (channels w')"
  by (auto simp: sendMessage_def Let_def set_store_def split: sum.splits if_splits prod.splits
      intro!: sendMessage_submit_channels)

text \<open>
  \<^verbatim>\<open>restartJobStreaming\<close> calls \<^verbatim>\<open>stopStreaming\<close> first: the stream whose cleanup
  was registered is closed when it returns.
\<close>

lemma map_of_filter_key: "map_of (filter (\<lambda>(k, c). k \<noteq> h) xs) h = None"
  by (induction xs) auto

lemma stopStreaming_releases:
  assumes "streamingCleanup (store w) = Some (CloseEventSource h)"
  shows "map_of (channels (stopStreaming w)) h = None"
  using assms
  by (simp add: stopStreaming_def run_cleanup_def close_event_source_def close_channel_def
      set_store_def Let_def map_of_filter_key)

lemma restartJobStreaming_releases_stream:
  assumes "streamingCleanup (store w) = Some (CloseEventSource h)" "h < next_handle w"
  shows "map_of (channels (restartJobStreaming chatId jobId w)) h = None"
proof -
  have n: "next_handle (stopStreaming w) = next_handle w"
    using assms(1)
    by (simp add: stopStreaming_def run_cleanup_def close_event_source_def close_channel_def
        set_store_def Let_def)
  from stopStreaming_releases [OF assms(1)] n assms(2) show ?thesis
    by (auto simp: restartJobStreaming_def open_channel_def set_store_def Let_def
        split: option.splits)
qed

text \<open>
  After a restart of the job of the submit of the scenario, the only channel is the
  restarted stream.
\<close>

lemma restartJobStreaming_releases:
  "map snd (channels (restartJobStreaming ''C1'' ''J3'' (submit ''a'' ''J3'' scenario_world))) =
     [RestartStream ''C1'' ''J3'' ''ts_fs_agent'' False]"
  by (simp add: scenario_defs store_defs)

text \<open>
  C3 on the store. \<^verbatim>\<open>sendMessage\<close> never runs the cleanup that is registered: a second
  submit on the same conversation leaves the stream of the first job open beside its own
  and overwrites the cleanup handle, and a fragment of the first job is then written
  into the transcript.
\<close>

theorem sendMessage_keeps_old_stream:
  "map snd (channels (submit ''b'' ''J4'' (submit ''a'' ''J3'' scenario_world))) =
     [SendStream ''C1'' ''J3'' ''ts_fs_agent'' [] False,
      SendStream ''C1'' ''J4'' ''ts_fs_agent'' [] False] \<and>
   streamingCleanup (store (submit ''b'' ''J4'' (submit ''a'' ''J3'' scenario_world))) =
     Some (CloseEventSource 1) \<and>
   transcript ''C1'' (submit ''b'' ''J4'' (submit ''a'' ''J3'' scenario_world)) =
     [(User, ''a''), (User, ''b'')] \<and>
   transcript ''C1'' (deliver scenario_env 0 (Data ''old'' ''t5'')
       (submit ''b'' ''J4'' (submit ''a'' ''J3'' scenario_world))) =
     [(User, ''a''), (User, ''b''), (Assistant, ''old'' @ newline)]"
  by (simp add: scenario_defs store_defs)

section \<open>Scenario A\<close>

text \<open>
  The data callback of \<^verbatim>\<open>sendMessage\<close> on any store: the fragment and a newline are
  added to what was accumulated, and when the result is not blank it becomes the
  content of the last message of the conversation, which is an assistant message.
\<close>

lemma sendMessage_onData_accumulates:
  "fst (sendMessage_onData e chatId dat now (f, s)) = f @ dat @ newline"
  by (simp add: sendMessage_onData_def Let_def)

lemma sendMessage_onData_message:
  assumes "i < length (chats s)" "id_c (chats s ! i) = chatId" "\<forall>j<i. id_c (chats s ! j) \<noteq> chatId"
    and "\<not> js_blank (f @ dat @ newline)"
  shows "one_final_message (f @ dat @ newline) (messages (chats s ! i))
           (messages (chats (snd (sendMessage_onData e chatId dat now (f, s))) ! i))"
  using assms(4) by (simp add: sendMessage_onData_chats replace_or_append_first [OF assms(1-3)])

text \<open>
  C6, as the store has it. The data callback appends a newline to every fragment: after
  the fragments \<^verbatim>\<open>Hello\<close> and \<^verbatim>\<open> world\<close> the last message is \<^verbatim>\<open>Hello\<close> and a
  newline, then \<^verbatim>\<open>Hello\<close>, a newline, \<^verbatim>\<open> world\<close> and a newline. The completed frame
  with the result text \<^verbatim>\<open>Hello world!!\<close> makes the last message exactly that text and
  clears the streaming flag.
\<close>

theorem scenario_A:
  "transcript ''C1'' scenario_streaming = [(User, ''hi'')] \<and>
   transcript ''C1'' (deliver_all scenario_env [(0, Data ''Hello'' ''t2'')]
       scenario_streaming) =
     [(User, ''hi''), (Assistant, ''Hello'' @ newline)] \<and>
   transcript ''C1'' (deliver_all scenario_env [(0, Data ''Hello'' ''t2''), (0, Data '' world'' ''t3'')]
       scenario_streaming) =
     [(User, ''hi''), (Assistant, ''Hello'' @ newline @ '' world'' @ newline)] \<and>
   transcript ''C1'' (deliver_all scenario_env
       [(0, Data ''Hello'' ''t2''), (0, Data '' world'' ''t3''),
        (0, Complete (text_frame ''completed'' ''Hello world!!'') ''t4'')]
       scenario_streaming) =
     [(User, ''hi''), (Assistant, ''Hello world!!'')] \<and>
   \<not> isStreaming (store (deliver_all scenario_env
       [(0, Data ''Hello'' ''t2''), (0, Data '' world'' ''t3''),
        (0, Complete (text_frame ''completed'' ''Hello world!!'') ''t4'')]
       scenario_streaming))"
  by (simp add: scenario_defs store_defs)

text \<open>C6 as stated fails: after the first fragment the last message is not \<^verbatim>\<open>Hello\<close>.\<close>

theorem scenario_A_counterexample:
  "snd (last (transcript ''C1'' (deliver_all scenario_env [(0, Data ''Hello'' ''t2'')]
       scenario_streaming))) \<noteq> ''Hello''"
  by (simp add: scenario_defs store_defs)

section \<open>The attempt ceiling\<close>

text \<open>
  The poll loop of \<^verbatim>\<open>pollJobStatus\<close> counts its attempts: while every reply is
  neither completed nor failed it polls 86400 times, then appends the timeout message
  once and clears the job and the flags.
\<close>

lemma pollJobStatus_poll_waiting:
  assumes "status st \<noteq> ''completed''" "status st \<noteq> ''failed''"
  shows "pollJobStatus_poll e chatId agentName (Resolved st) now (n, s) =
     (if Suc n < maxAttempts then ((Suc n, s), True)
      else ((Suc n, clear_job (addMessage e chatId
              (assistant_message (error_prefix @ ''Request timed out'') now) s)), False))"
  using assms by (simp add: pollJobStatus_poll_def Let_def)

lemma pollJobStatus_run_times_out:
  assumes "\<And>k. \<exists>st. feed k = Resolved st \<and> status st \<noteq> ''completed'' \<and> status st \<noteq> ''failed''"
    and "n < maxAttempts"
  shows "pollJobStatus_run e chatId agentName feed clock k (n, s) =
     (k + (maxAttempts - n),
      clear_job (addMessage e chatId
        (assistant_message (error_prefix @ ''Request timed out'') (clock (k + (maxAttempts - n) - 1))) s))"
  using assms(2)
proof (induction "maxAttempts - n" arbitrary: n k)
  case 0
  then show ?case by simp
next
  case (Suc d)
  obtain st where st: "feed k = Resolved st" "status st \<noteq> ''completed''" "status st \<noteq> ''failed''"
    using assms(1) by blast
  show ?case
  proof (cases "Suc n < maxAttempts")
    case True
    with Suc have d: "d = maxAttempts - Suc n" by simp
    from Suc.hyps(1) [OF d True, of "Suc k"] True st show ?thesis
      by (subst pollJobStatus_run.simps) (simp add: pollJobStatus_poll_waiting Suc_diff_Suc)
  next
    case False
    with Suc have "maxAttempts - n = 1" by simp
    with False st show ?thesis
      by (subst pollJobStatus_run.simps) (simp add: pollJobStatus_poll_waiting)
  qed
qed

lemma pollJobStatus_run_86400:
  assumes "\<And>k. \<exists>st. feed k = Resolved st \<and> status st \<noteq> ''completed'' \<and> status st \<noteq> ''failed''"
  shows "pollJobStatus_run e chatId agentName feed clock 0 (0, s) =
     (86400, clear_job (addMessage e chatId
        (assistant_message (error_prefix @ ''Request timed out'') (clock 86399)) s))"
  using pollJobStatus_run_times_out [OF assms, where n = 0 and k = 0]
  by (simp add: maxAttempts_def)

text \<open>In the scenario: the job polled after its stream failed stays \<^verbatim>\<open>running\<close>.\<close>

lemma pollJobStatus_run_scenario:
  "pollJobStatus_run scenario_env ''C1'' ''ts_fs_agent''
     (\<lambda>k. status_reply ''running'' None None) clock 0 (0, store scenario_polling) =
     (86400, clear_job (addMessage scenario_env ''C1''
        (assistant_message (error_prefix @ ''Request timed out'') (clock 86399))
        (store scenario_polling)))"
  by (rule pollJobStatus_run_86400) (simp add: status_reply_def)

text \<open>
  C7 on the poll loop of \<^verbatim>\<open>startJobPolling\<close>, which has no counter: while every reply
  is \<^verbatim>\<open>running\<close> the next poll is scheduled, whatever the number of polls made.
\<close>

theorem startJobPolling_never_times_out:
  "startJobPolling_run fuel e chatId jobId (\<lambda>k. Resolved ((st k)\<lparr>status := ''running''\<rparr>)) clock k s = None"
  by (induction fuel arbitrary: k s) (simp_all add: startJobPolling_poll_def)

section \<open>A failed status request\<close>

text \<open>
  C8, as the store has it. When the status request is rejected, the \<^verbatim>\<open>catch\<close> block
  of either poll loop schedules no further poll and clears \<^verbatim>\<open>loadingChatId\<close>,
  \<^verbatim>\<open>isLoading\<close>, \<^verbatim>\<open>isStreaming\<close> and \<^verbatim>\<open>currentJob\<close>; it leaves every conversation
  as it was, so no error message is written to the transcript.
\<close>

theorem poll_request_error:
  "snd (pollJobStatus_poll e chatId agentName (Rejected err) now (attempts, s)) = False \<and>
   snd (fst (pollJobStatus_poll e chatId agentName (Rejected err) now (attempts, s))) =
     s\<lparr>loadingChatId := None, isLoading := False, isStreaming := False, currentJob := None\<rparr> \<and>
   chats (snd (fst (pollJobStatus_poll e chatId agentName (Rejected err) now (attempts, s)))) = chats s \<and>
   snd (startJobPolling_poll e chatId jobId (Rejected err) now s) = False \<and>
   fst (startJobPolling_poll e chatId jobId (Rejected err) now s) =
     s\<lparr>loadingChatId := None, isLoading := False, isStreaming := False, currentJob := None,
       streamingCleanup := None\<rparr> \<and>
   chats (fst (startJobPolling_poll e chatId jobId (Rejected err) now s)) = chats s"
  by (simp add: pollJobStatus_poll_def startJobPolling_poll_def clear_job_def)

text \<open>
  C8 as stated fails: the stream of \<^verbatim>\<open>J1\<close> failed, the first status request failed
  too, and the transcript holds the user message only while the flags are cleared and
  the poll loop is gone.
\<close>

theorem poll_request_error_counterexample:
  "transcript ''C1'' (deliver_all scenario_env
      [(0, StreamError), (1, StatusReply (Rejected (Some ''Network Error'')) ''t2'')]
      scenario_streaming) = [(User, ''hi'')] \<and>
   \<not> isLoading (store (deliver_all scenario_env
      [(0, StreamError), (1, StatusReply (Rejected (Some ''Network Error'')) ''t2'')]
      scenario_streaming)) \<and>
   map_of (channels (deliver_all scenario_env
      [(0, StreamError), (1, StatusReply (Rejected (Some ''Network Error'')) ''t2'')]
      scenario_streaming)) 1 = None"
  by (simp add: scenario_defs store_defs)

section \<open>Mutation by copy\<close>

lemma lookup_prefix: "prefix h h' \<Longrightarrow> lookup h a = Some c \<Longrightarrow> lookup h' a = Some c"
  by (auto simp: lookup_def prefix_def nth_append split: if_splits)

lemma those_map_mono:
  assumes "\<And>a x. f a = Some x \<Longrightarrow> g a = Some x"
  shows "those (map f as) = Some xs \<Longrightarrow> those (map g as) = Some xs"
proof (induction as arbitrary: xs)
  case Nil
  then show ?case by simp
next
  case (Cons a as)
  then show ?case
    by (auto simp: assms split: option.splits)
qed

lemma read_message_prefix:
  "prefix h h' \<Longrightarrow> read_message h a = Some m \<Longrightarrow> read_message h' a = Some m"
  by (auto simp: read_message_def dest: lookup_prefix split: option.splits cell.splits)

lemma read_messages_prefix:
  assumes "prefix h h'" "read_messages h a = Some ms"
  shows "read_messages h' a = Some ms"
proof -
  from assms(2) obtain as where as: "lookup h a = Some (MessageArr as)"
    and ms: "those (map (read_message h) as) = Some ms"
    by (auto simp: read_messages_def split: option.splits cell.splits)
  from those_map_mono [OF read_message_prefix [OF assms(1)] ms] lookup_prefix [OF assms(1) as]
  show ?thesis
    by (simp add: read_messages_def)
qed

lemma read_chat_prefix:
  assumes "prefix h h'" "read_chat h a = Some ch"
  shows "read_chat h' a = Some ch"
proof -
  from assms(2) obtain co ms where co: "lookup h a = Some (ChatObj co)"
    and ms: "read_messages h (o_messages co) = Some ms" and ch: "ch = chat_of co ms"
    by (auto simp: read_chat_def split: option.splits cell.splits)
  from read_messages_prefix [OF assms(1) ms] lookup_prefix [OF assms(1) co] ch
  show ?thesis
    by (simp add: read_chat_def)
qed

lemma read_chats_prefix:
  assumes "prefix h h'" "read_chats h a = Some cs"
  shows "read_chats h' a = Some cs"
proof -
  from assms(2) obtain as where as: "lookup h a = Some (ChatArr as)"
    and cs: "those (map (read_chat h) as) = Some cs"
    by (auto simp: read_chats_def split: option.splits cell.splits)
  from those_map_mono [OF read_chat_prefix [OF assms(1)] cs] lookup_prefix [OF assms(1) as]
  show ?thesis
    by (simp add: read_chats_def)
qed

lemma those_map_Some_iff:
  "those (map f as) = Some xs \<longleftrightarrow>
     length xs = length as \<and> (\<forall>i<length as. f (as ! i) = Some (xs ! i))"
proof (induction as arbitrary: xs)
  case Nil
  then show ?case by auto
next
  case (Cons a as)
  show ?case
  proof (cases xs)
    case Nil
    then show ?thesis by (auto split: option.splits)
  next
    case (Cons x xs')
    with Cons.IH [of xs'] show ?thesis
      by (auto simp: less_Suc_eq_0_disj split: option.splits)
  qed
qed

lemma those_map_snoc:
  assumes "those (map f as) = Some xs" "f a = Some x"
  shows "those (map f (as @ [a])) = Some (xs @ [x])"
  using assms unfolding those_map_Some_iff by (auto simp: nth_append)

lemma those_read_message_prefix:
  assumes "prefix h h'" "those (map (read_message h) as) = Some ms"
  shows "those (map (read_message h') as) = Some ms"
  using assms(2) read_message_prefix [OF assms(1)] unfolding those_map_Some_iff by simp

lemma those_read_chat_prefix:
  assumes "prefix h h'" "those (map (read_chat h) as) = Some cs"
  shows "those (map (read_chat h') as) = Some cs"
  using assms(2) read_chat_prefix [OF assms(1)] unfolding those_map_Some_iff by simp

lemma addMessage_add_to: "chats (addMessage e chatId m s) = map (add_to e chatId m) (chats s)"
  by (simp add: addMessage_def add_to_def)

lemma read_chat_parts:
  assumes "read_chat h a = Some ch"
  obtains co as where "lookup h a = Some (ChatObj co)" "lookup h (o_messages co) = Some (MessageArr as)"
    "those (map (read_message h) as) = Some (messages ch)" "ch = chat_of co (messages ch)"
  using assms
  by (auto simp: read_chat_def read_messages_def chat_of_def split: option.splits cell.splits)

lemma read_message_lookup: "read_message h m = Some msg \<Longrightarrow> lookup h m = Some (MessageObj msg)"
  by (auto simp: read_message_def split: option.splits cell.splits)

lemma addMessage_map_reads:
  assumes "those (map (read_chat h) cs) = Some chs" "read_message h m = Some msg"
  shows "\<exists>cs' h'. addMessage_map e chatId m cs h = Some (cs', h') \<and> prefix h h' \<and>
           those (map (read_chat h') cs') = Some (map (add_to e chatId msg) chs)"
  using assms
proof (induction cs arbitrary: h chs)
  case Nil
  then show ?case by simp
next
  case (Cons c cs)
  from Cons.prems(1) obtain ch chs' where ch: "read_chat h c = Some ch"
    and chs': "those (map (read_chat h) cs) = Some chs'" and chs: "chs = ch # chs'"
    by (auto split: option.splits)
  from ch obtain co as where co: "lookup h c = Some (ChatObj co)"
    and as: "lookup h (o_messages co) = Some (MessageArr as)"
    and ms: "those (map (read_message h) as) = Some (messages ch)"
    and chco: "ch = chat_of co (messages ch)"
    by (rule read_chat_parts)
  note m = read_message_lookup [OF Cons.prems(2)]
  show ?case
  proof (cases "o_id co = chatId")
    case False
    from Cons.IH [OF chs' Cons.prems(2)] obtain cs' h' where
      r: "addMessage_map e chatId m cs h = Some (cs', h')" and p: "prefix h h'"
      and rd: "those (map (read_chat h') cs') = Some (map (add_to e chatId msg) chs')"
      by blast
    from False chco have "add_to e chatId msg ch = ch"
      by (simp add: add_to_def chat_of_def) (metis chat.select_convs(1))
    with co False r p rd read_chat_prefix [OF p ch] chs show ?thesis
      by simp
  next
    case True
    define co' where "co' = co\<lparr>o_messages := length h,
       o_title := (if length as = 0 \<and> role msg = User
                   then generateChatTitle e (content msg) else o_title co)\<rparr>"
    define h2 where "h2 = h @ [MessageArr (as @ [m]), ChatObj co']"
    have p2: "prefix h h2"
      by (simp add: h2_def)
    from those_read_chat_prefix [OF p2 chs'] read_message_prefix [OF p2 Cons.prems(2)]
    have "\<exists>cs' h'. addMessage_map e chatId m cs h2 = Some (cs', h') \<and> prefix h2 h' \<and>
           those (map (read_chat h') cs') = Some (map (add_to e chatId msg) chs')"
      by (rule Cons.IH)
    then obtain cs' h' where
      r: "addMessage_map e chatId m cs h2 = Some (cs', h')" and p: "prefix h2 h'"
      and rd: "those (map (read_chat h') cs') = Some (map (add_to e chatId msg) chs')"
      by blast
    from ms have len: "length (messages ch) = length as"
      by (simp add: those_map_Some_iff)
    from those_read_message_prefix [OF p2 ms] read_message_prefix [OF p2 Cons.prems(2)]
    have "those (map (read_message h2) (as @ [m])) = Some (messages ch @ [msg])"
      by (rule those_map_snoc)
    moreover have l1: "lookup h2 (length h) = Some (MessageArr (as @ [m]))"
      and l2: "lookup h2 (Suc (length h)) = Some (ChatObj co')"
      by (simp_all add: lookup_def h2_def nth_append)
    moreover have om: "o_messages co' = length h"
      by (simp add: co'_def)
    ultimately have "read_chat h2 (Suc (length h)) = Some (chat_of co' (messages ch @ [msg]))"
      by (simp add: read_chat_def read_messages_def)
    moreover from True chco len have "chat_of co' (messages ch @ [msg]) = add_to e chatId msg ch"
      by (cases ch) (simp add: chat_of_def add_to_def co'_def)
    ultimately have "read_chat h' (Suc (length h)) = Some (add_to e chatId msg ch)"
      using read_chat_prefix [OF p] by simp
    moreover from p p2 have "prefix h h'"
      by (rule prefix_order.trans [rotated])
    ultimately show ?thesis
      using co as m True r rd chs
      by (simp add: alloc_def h2_def co'_def)
  qed
qed

lemma updateLastMessage_replace_last:
  "chats (updateLastMessage chatId c s) = map (replace_last chatId c) (chats s)"
  by (simp add: updateLastMessage_def replace_last_def)

lemma length_write_cell: "length (write_cell a c h) = length h"
  by (simp add: write_cell_def)

lemma those_map_update:
  assumes "those (map f as) = Some xs" "f a = Some x"
  shows "those (map f (as[i := a])) = Some (xs[i := x])"
proof -
  from assms have len: "length xs = length as" and nth: "\<And>j. j < length as \<Longrightarrow> f (as ! j) = Some (xs ! j)"
    unfolding those_map_Some_iff by simp_all
  have "f (as[i := a] ! j) = Some (xs[i := x] ! j)" if "j < length as" for j
    using that nth [OF that] assms(2) len by (cases "j = i") simp_all
  with len show ?thesis
    unfolding those_map_Some_iff by simp
qed

lemma updateLastMessage_map_reads:
  assumes "those (map (read_chat h) cs) = Some chs"
  shows "\<exists>cs' h'. updateLastMessage_map chatId c cs h = Some (cs', h') \<and> prefix h h' \<and>
           those (map (read_chat h') cs') = Some (map (replace_last chatId c) chs)"
  using assms
proof (induction cs arbitrary: h chs)
  case Nil
  then show ?case by simp
next
  case (Cons a cs)
  from Cons.prems(1) obtain ch chs' where ch: "read_chat h a = Some ch"
    and chs': "those (map (read_chat h) cs) = Some chs'" and chs: "chs = ch # chs'"
    by (auto split: option.splits)
  from ch obtain co as where co: "lookup h a = Some (ChatObj co)"
    and as: "lookup h (o_messages co) = Some (MessageArr as)"
    and ms: "those (map (read_message h) as) = Some (messages ch)"
    and chco: "ch = chat_of co (messages ch)"
    by (rule read_chat_parts)
  from ms have len: "length (messages ch) = length as"
    by (simp add: those_map_Some_iff)
  from chco have idc: "id_c ch = o_id co"
    by (cases ch) (simp add: chat_of_def)
  show ?case
  proof (cases "o_id co = chatId \<and> length as > 0")
    case False
    from Cons.IH [OF chs'] obtain cs' h' where
      r: "updateLastMessage_map chatId c cs h = Some (cs', h')" and p: "prefix h h'"
      and rd: "those (map (read_chat h') cs') = Some (map (replace_last chatId c) chs')"
      by blast
    from False idc len have "replace_last chatId c ch = ch"
      by (auto simp: replace_last_def)
    with co as False r p rd read_chat_prefix [OF p ch] chs show ?thesis
      by auto
  next
    case True
    define n where "n = length as - 1"
    from True have n: "n < length as"
      by (simp add: n_def)
    have n1: "length as - 1 = n" and n2: "length as - Suc 0 = n"
      by (simp_all add: n_def)
    define old where "old = messages ch ! n"
    from ms n have "read_message h (as ! n) = Some old"
      by (simp add: those_map_Some_iff old_def)
    then have lold: "lookup h (as ! n) = Some (MessageObj old)"
      by (rule read_message_lookup)
    define co' where "co' = co\<lparr>o_messages := length h\<rparr>"
    define h4 where "h4 = h @ [MessageArr (as[n := Suc (length h)]), MessageObj (old\<lparr>content := c\<rparr>),
                               ChatObj co']"
    have p4: "prefix h h4"
      by (simp add: h4_def)
    from Cons.IH [OF those_read_chat_prefix [OF p4 chs']] obtain cs' h' where
      r: "updateLastMessage_map chatId c cs h4 = Some (cs', h')" and p: "prefix h4 h'"
      and rd: "those (map (read_chat h') cs') = Some (map (replace_last chatId c) chs')"
      by blast
    have l1: "lookup h4 (length h) = Some (MessageArr (as[n := Suc (length h)]))"
      and l2: "lookup h4 (Suc (length h)) = Some (MessageObj (old\<lparr>content := c\<rparr>))"
      and l3: "lookup h4 (Suc (Suc (length h))) = Some (ChatObj co')"
      by (simp_all add: lookup_def h4_def nth_append)
    from l2 have "read_message h4 (Suc (length h)) = Some (old\<lparr>content := c\<rparr>)"
      by (simp add: read_message_def)
    with those_read_message_prefix [OF p4 ms]
    have "those (map (read_message h4) (as[n := Suc (length h)])) =
            Some ((messages ch)[n := old\<lparr>content := c\<rparr>])"
      by (rule those_map_update)
    with l1 l3 have "read_chat h4 (Suc (Suc (length h))) =
        Some (chat_of co' ((messages ch)[n := old\<lparr>content := c\<rparr>]))"
      by (simp add: read_chat_def read_messages_def co'_def)
    moreover from True chco len idc
    have "chat_of co' ((messages ch)[n := old\<lparr>content := c\<rparr>]) = replace_last chatId c ch"
      by (cases ch) (simp add: chat_of_def replace_last_def co'_def n_def old_def)
    ultimately have "read_chat h' (Suc (Suc (length h))) = Some (replace_last chatId c ch)"
      using read_chat_prefix [OF p] by simp
    moreover from p p4 have "prefix h h'"
      by (rule prefix_order.trans [rotated])
    moreover have "write_cell (length h) (MessageArr (as[n := Suc (length h)]))
        (h @ [MessageArr as, MessageObj (old\<lparr>content := c\<rparr>)]) @ [ChatObj co'] = h4"
      by (simp add: write_cell_def h4_def list_update_append)
    ultimately show ?thesis
      using co as lold True r rd chs
      by (simp add: alloc_def n1 n2 co'_def [symmetric] length_write_cell)
  qed
qed

text \<open>
  C9. On a heap where the reference \<^verbatim>\<open>r\<close> reads as the chat list of the store and
  \<^verbatim>\<open>m\<close> as a message, \<^verbatim>\<open>addMessage\<close> and \<^verbatim>\<open>updateLastMessage\<close> return a reference
  that was not allocated before, every cell allocated before holds what it held (the
  old heap is a prefix of the new one), a reader of the old reference reads the old
  chat list, and the new reference reads as the chat list of the mutator on values.
  On values, the number of conversations is kept, every conversation with another id is
  unchanged, and for an id that no conversation has the whole list is unchanged.
\<close>

theorem mutators_copy_on_write:
  assumes "read_chats h r = Some (chats s)" "read_message h m = Some msg"
  shows "(\<exists>r' h'. addMessage_heap e chatId m r h = Some (r', h') \<and> prefix h h' \<and> length h \<le> r' \<and>
            read_chats h' r = Some (chats s) \<and>
            read_chats h' r' = Some (chats (addMessage e chatId msg s))) \<and>
         (\<exists>r' h'. updateLastMessage_heap chatId c r h = Some (r', h') \<and> prefix h h' \<and> length h \<le> r' \<and>
            read_chats h' r = Some (chats s) \<and>
            read_chats h' r' = Some (chats (updateLastMessage chatId c s))) \<and>
         length (chats (addMessage e chatId msg s)) = length (chats s) \<and>
         length (chats (updateLastMessage chatId c s)) = length (chats s) \<and>
         (\<forall>i<length (chats s). id_c (chats s ! i) \<noteq> chatId \<longrightarrow>
            chats (addMessage e chatId msg s) ! i = chats s ! i \<and>
            chats (updateLastMessage chatId c s) ! i = chats s ! i) \<and>
         (chatId \<notin> id_c ` set (chats s) \<longrightarrow>
            chats (addMessage e chatId msg s) = chats s \<and>
            chats (updateLastMessage chatId c s) = chats s)"
proof -
  from assms(1) obtain cs where cs: "lookup h r = Some (ChatArr cs)"
    and rd: "those (map (read_chat h) cs) = Some (chats s)"
    by (auto simp: read_chats_def split: option.splits cell.splits)
  have *: "prefix h (h' @ [ChatArr cs']) \<and> length h \<le> length h' \<and>
      read_chats (h' @ [ChatArr cs']) r = Some (chats s) \<and>
      read_chats (h' @ [ChatArr cs']) (length h') = Some new"
    if p: "prefix h h'" and new: "those (map (read_chat h') cs') = Some new" for h' cs' new
  proof -
    from p have p': "prefix h (h' @ [ChatArr cs'])"
      by (simp add: prefix_def) auto
    have "prefix h' (h' @ [ChatArr cs'])"
      by simp
    from those_read_chat_prefix [OF this new]
    have "read_chats (h' @ [ChatArr cs']) (length h') = Some new"
      by (simp add: read_chats_def lookup_def)
    with p' read_chats_prefix [OF p' assms(1)] prefix_length_le [OF p] show ?thesis
      by simp
  qed
  from addMessage_map_reads [OF rd assms(2)] obtain cs' h' where
    "addMessage_map e chatId m cs h = Some (cs', h')" "prefix h h'"
    "those (map (read_chat h') cs') = Some (map (add_to e chatId msg) (chats s))"
    by blast
  with cs * [of h' cs'] have a: "\<exists>r' h'. addMessage_heap e chatId m r h = Some (r', h') \<and> prefix h h' \<and>
      length h \<le> r' \<and> read_chats h' r = Some (chats s) \<and>
      read_chats h' r' = Some (chats (addMessage e chatId msg s))"
    by (simp add: addMessage_heap_def alloc_def addMessage_add_to)
  from updateLastMessage_map_reads [OF rd] obtain cs' h' where
    "updateLastMessage_map chatId c cs h = Some (cs', h')" "prefix h h'"
    "those (map (read_chat h') cs') = Some (map (replace_last chatId c) (chats s))"
    by blast
  with cs * [of h' cs'] have b: "\<exists>r' h'. updateLastMessage_heap chatId c r h = Some (r', h') \<and> prefix h h' \<and>
      length h \<le> r' \<and> read_chats h' r = Some (chats s) \<and>
      read_chats h' r' = Some (chats (updateLastMessage chatId c s))"
    by (simp add: updateLastMessage_heap_def alloc_def updateLastMessage_replace_last)
  have len: "length (chats (addMessage e chatId msg s)) = length (chats s)"
    "length (chats (updateLastMessage chatId c s)) = length (chats s)"
    by (simp_all add: addMessage_def updateLastMessage_def)
  have others: "\<forall>i<length (chats s). id_c (chats s ! i) \<noteq> chatId \<longrightarrow>
      chats (addMessage e chatId msg s) ! i = chats s ! i \<and>
      chats (updateLastMessage chatId c s) ! i = chats s ! i"
    by (simp add: addMessage_nth updateLastMessage_nth)
  have unknown: "chatId \<notin> id_c ` set (chats s) \<longrightarrow>
      chats (addMessage e chatId msg s) = chats s \<and> chats (updateLastMessage chatId c s) = chats s"
    by (auto simp: addMessage_def updateLastMessage_def intro!: map_idI)
  from a b len others unknown show ?thesis
    by (intro conjI)
qed

text \<open>
  On the fixture, the cells the two mutators allocate: the old cells stay, the new
  array of chats refers to a new chat object, which refers to a new array of messages.
\<close>

lemma addMessage_heap_scenario:
  "addMessage_heap scenario_env ''C1'' 4 3 scenario_heap =
     Some (7, scenario_heap @
       [MessageArr [0, 4],
        ChatObj \<lparr>o_id = ''C1'', o_title = ''hi'', o_provider = ''openai'', o_model = ''gpt'',
                 o_agent_id = Some ''ts_fs_agent'', o_messages = 5\<rparr>,
        ChatArr [6]])"
  by (simp add: addMessage_heap_def lookup_def alloc_def scenario_heap_def)

lemma updateLastMessage_heap_scenario:
  "updateLastMessage_heap ''C1'' ''x'' 3 scenario_heap =
     Some (8, scenario_heap @
       [MessageArr [6], MessageObj \<lparr>role = User, content = ''x'', timestamp = ''t0''\<rparr>,
        ChatObj \<lparr>o_id = ''C1'', o_title = ''hi'', o_provider = ''openai'', o_model = ''gpt'',
                 o_agent_id = Some ''ts_fs_agent'', o_messages = 5\<rparr>,
        ChatArr [7]])"
  by (simp add: updateLastMessage_heap_def lookup_def alloc_def write_cell_def scenario_heap_def)

theorem mutators_copy_on_write_witness:
  "read_chats scenario_heap 3 = Some (chats scenario_store) \<and>
   read_message scenario_heap 4 = Some \<lparr>role = Assistant, content = ''Hello'', timestamp = ''t2''\<rparr> \<and>
   (\<exists>r' h'. addMessage_heap scenario_env ''C1'' 4 3 scenario_heap = Some (r', h') \<and>
      prefix scenario_heap h' \<and> length scenario_heap \<le> r' \<and>
      read_chats h' 3 = Some (chats scenario_store) \<and>
      read_chats h' r' = Some (chats (addMessage scenario_env ''C1''
        \<lparr>role = Assistant, content = ''Hello'', timestamp = ''t2''\<rparr> scenario_store))) \<and>
   (\<exists>r' h'. updateLastMessage_heap ''C1'' ''x'' 3 scenario_heap = Some (r', h') \<and>
      prefix scenario_heap h' \<and> length scenario_heap \<le> r' \<and>
      read_chats h' 3 = Some (chats scenario_store) \<and>
      read_chats h' r' = Some (chats (updateLastMessage ''C1'' ''x'' scenario_store)))"
proof -
  have h: "read_chats scenario_heap 3 = Some (chats scenario_store)"
    "read_message scenario_heap 4 = Some \<lparr>role = Assistant, content = ''Hello'', timestamp = ''t2''\<rparr>"
    by (simp_all add: scenario_heap_def read_chats_def read_chat_def read_messages_def
        read_message_def lookup_def chat_of_def scenario_defs store_defs)
  from mutators_copy_on_write [OF h, of scenario_env "''C1''" "''x''"] h show ?thesis
    by simp
qed

end
